theory Spec2Isabelle
  imports Main
begin

section \<open>Python string operations used by the terminal\<close>

text \<open>
  A Python \<open>str\<close> is modelled as a \<open>string\<close> whose characters are the code points below
  256. The whitespace characters are those for which \<open>str.isspace\<close> holds in that range;
  \<open>str.split\<close>, \<open>str.strip\<close> and \<open>str.lower\<close> follow CPython on it.
\<close>

definition whitespace :: "char list" where
  "whitespace =
     [CHR 0x09, CHR 0x0A, CHR 0x0B, CHR 0x0C, CHR 0x0D, CHR 0x1C, CHR 0x1D, CHR 0x1E,
      CHR 0x1F, CHR '' '', CHR 0x85, CHR 0xA0]"

definition isspace :: "char \<Rightarrow> bool" where
  "isspace c = (c \<in> set whitespace)"

text \<open>\<open>s.split()\<close>: the maximal runs of non-whitespace characters, in order.\<close>

fun split_acc :: "string \<Rightarrow> string \<Rightarrow> string list" where
  "split_acc cur [] = (if cur = [] then [] else [cur])"
| "split_acc cur (c # cs) =
     (if isspace c then (if cur = [] then split_acc [] cs else cur # split_acc [] cs)
      else split_acc (cur @ [c]) cs)"

definition split :: "string \<Rightarrow> string list" where
  "split s = split_acc [] s"

text \<open>
  \<open>s.split(maxsplit=1)\<close>: the first token, then what follows the whitespace after it,
  trailing whitespace included; the second part is absent when nothing follows.
\<close>

definition split_maxsplit1 :: "string \<Rightarrow> string list" where
  "split_maxsplit1 s =
     (let s1 = dropWhile isspace s
      in if s1 = [] then []
         else let tok = takeWhile (\<lambda>c. \<not> isspace c) s1;
                  rest = dropWhile isspace (dropWhile (\<lambda>c. \<not> isspace c) s1)
              in if rest = [] then [tok] else [tok, rest])"

text \<open>\<open>sep.join(xs)\<close>.\<close>

fun str_join :: "string \<Rightarrow> string list \<Rightarrow> string" where
  "str_join sep [] = []"
| "str_join sep [x] = x"
| "str_join sep (x # y # ys) = x @ sep @ str_join sep (y # ys)"

text \<open>\<open>s.strip()\<close> removes whitespace at both ends.\<close>

definition strip :: "string \<Rightarrow> string" where
  "strip s = rev (dropWhile isspace (rev (dropWhile isspace s)))"

text \<open>\<open>s.rstrip()\<close> removes whitespace at the end only.\<close>

definition rstrip :: "string \<Rightarrow> string" where
  "rstrip s = rev (dropWhile isspace (rev s))"

definition upper_chars :: "char list" where
  "upper_chars =
     ''ABCDEFGHIJKLMNOPQRSTUVWXYZ'' @
     [CHR 0xC0, CHR 0xC1, CHR 0xC2, CHR 0xC3, CHR 0xC4, CHR 0xC5, CHR 0xC6, CHR 0xC7,
      CHR 0xC8, CHR 0xC9, CHR 0xCA, CHR 0xCB, CHR 0xCC, CHR 0xCD, CHR 0xCE, CHR 0xCF,
      CHR 0xD0, CHR 0xD1, CHR 0xD2, CHR 0xD3, CHR 0xD4, CHR 0xD5, CHR 0xD6,
      CHR 0xD8, CHR 0xD9, CHR 0xDA, CHR 0xDB, CHR 0xDC, CHR 0xDD, CHR 0xDE]"

definition lower_chars :: "char list" where
  "lower_chars =
     ''abcdefghijklmnopqrstuvwxyz'' @
     [CHR 0xE0, CHR 0xE1, CHR 0xE2, CHR 0xE3, CHR 0xE4, CHR 0xE5, CHR 0xE6, CHR 0xE7,
      CHR 0xE8, CHR 0xE9, CHR 0xEA, CHR 0xEB, CHR 0xEC, CHR 0xED, CHR 0xEE, CHR 0xEF,
      CHR 0xF0, CHR 0xF1, CHR 0xF2, CHR 0xF3, CHR 0xF4, CHR 0xF5, CHR 0xF6,
      CHR 0xF8, CHR 0xF9, CHR 0xFA, CHR 0xFB, CHR 0xFC, CHR 0xFD, CHR 0xFE]"

definition lower_char :: "char \<Rightarrow> char" where
  "lower_char c = (case map_of (zip upper_chars lower_chars) c of Some d \<Rightarrow> d | None \<Rightarrow> c)"

text \<open>\<open>s.lower()\<close>.\<close>

definition lower :: "string \<Rightarrow> string" where
  "lower s = map lower_char s"

text \<open>\<open>s.startswith(p)\<close>.\<close>

definition startswith :: "string \<Rightarrow> string \<Rightarrow> bool" where
  "startswith s p = (take (length p) s = p)"

text \<open>\<open>s.replace(c, new)\<close> for a one-character pattern \<open>c\<close>.\<close>

definition replace_char :: "char \<Rightarrow> string \<Rightarrow> string \<Rightarrow> string" where
  "replace_char c new s = concat (map (\<lambda>x. if x = c then new else [x]) s)"

text \<open>The decimal form of a number, as an f-string prints it.\<close>

definition digit_char :: "nat \<Rightarrow> char" where
  "digit_char d = ''0123456789'' ! d"

fun str_of_nat :: "nat \<Rightarrow> string" where
  "str_of_nat n =
     (if n < 10 then [digit_char n] else str_of_nat (n div 10) @ [digit_char (n mod 10)])"

declare str_of_nat.simps [simp del]

section \<open>The alias table\<close>

datatype revision = V1_0_0 | V1_0_1

definition base_aliases :: "(string \<times> string) list" where
  "base_aliases =
     [(''ll'', ''ls -la''), (''la'', ''ls -a''), (''cls'', ''clear''), (''md'', ''mkdir''),
      (''rd'', ''rmdir''), (''..'', ''cd ..''), (''...'', ''cd ../..''),
      (''....'', ''cd ../../..'')]"

definition windows_aliases :: "revision \<Rightarrow> (string \<times> string) list" where
  "windows_aliases rv =
     [(''ls'', ''dir''), (''rm'', ''del''), (''cp'', ''copy''), (''mv'', ''move''),
      (''cat'', ''type''), (''pwd'', ''cd'')] @
     (case rv of V1_0_0 \<Rightarrow> [] | V1_0_1 \<Rightarrow> [(''mkdir -p'', ''mkdir'')])"

text \<open>
  \<open>load_aliases\<close>: the base table, updated with the Windows entries when the lowercased
  platform name is \<open>windows\<close>.
\<close>

definition load_aliases :: "revision \<Rightarrow> string \<Rightarrow> (string \<rightharpoonup> string)" where
  "load_aliases rv sys =
     (if sys = ''windows'' then map_of base_aliases ++ map_of (windows_aliases rv)
      else map_of base_aliases)"

text \<open>
  \<open>expand_aliases\<close>, the same in both revisions: when the first token of the line is a key
  of the table, the expansion, a space and the remaining tokens joined by single spaces;
  otherwise the line itself.
\<close>

definition expand_aliases :: "(string \<rightharpoonup> string) \<Rightarrow> string \<Rightarrow> string" where
  "expand_aliases aliases command =
     (case split command of
        [] \<Rightarrow> command
      | p # ps \<Rightarrow>
          (case aliases p of
             Some e \<Rightarrow> e @ '' '' @ str_join '' '' ps
           | None \<Rightarrow> command))"

section \<open>The operating system, as the terminal calls it\<close>

text \<open>
  A library call that may raise returns a sum: \<open>Inl msg\<close> is an exception whose text is
  \<open>msg\<close>, \<open>Inr v\<close> is the value \<open>v\<close>.
\<close>

type_synonym 'a raises = "string + 'a"

text \<open>
  The library and operating-system calls of the source are parameters of the model. \<open>'w\<close>
  is the state of the operating system (the file system and the working directory of the
  process). \<open>chdir\<close> changes the working directory or raises and changes nothing;
  \<open>getcwd\<close> reads the working directory and may raise; \<open>makedirs\<close> creates directories
  one at a time, so when it raises it also returns the state it has reached.
\<close>

record 'w env =
  platform_system :: string
  platform_node :: string
  getlogin :: "string raises"
  home :: "string raises"
  expanduser :: "string \<Rightarrow> string"
  basename :: "string \<Rightarrow> string"
  dirname :: "string \<Rightarrow> string"
  isabs :: "string \<Rightarrow> bool"
  path_join :: "string \<Rightarrow> string \<Rightarrow> string"
  normpath :: "string \<Rightarrow> string"
  path_exists :: "'w \<Rightarrow> string \<Rightarrow> bool"
  isdir :: "'w \<Rightarrow> string \<Rightarrow> bool"
  chdir :: "string \<Rightarrow> 'w \<Rightarrow> 'w raises"
  getcwd :: "'w \<Rightarrow> string raises"
  makedirs :: "string \<Rightarrow> 'w \<Rightarrow> (string \<times> 'w) + 'w"
  os_system :: "string \<Rightarrow> 'w \<Rightarrow> 'w"
  popen :: "string \<Rightarrow> string \<Rightarrow> 'w \<Rightarrow> (string \<times> string \<times> 'w) raises"

text \<open>
  \<open>popen E command cwd w\<close> stands for \<open>subprocess.Popen(command, shell=True, cwd=cwd, ...)\<close>
  followed by \<open>communicate()\<close>: the captured standard output and standard error, and the
  operating system after the process has ended.
\<close>

section \<open>The terminal\<close>

datatype call = System string | Popen string string

text \<open>
  The fields of \<open>SimpleTerminal\<close>, the operating system it runs on, the texts it has
  printed on each channel (one entry for each \<open>print\<close>), and the commands it has handed to
  \<open>os.system\<close> and \<open>subprocess.Popen\<close>, in order.
\<close>

record 'w terminal =
  current_dir :: string
  system :: string
  history :: "string list"
  history_index :: int
  aliases :: "string \<rightharpoonup> string"
  world :: 'w
  printed :: "string list"
  printed_err :: "string list"
  spawned :: "call list"

text \<open>What \<open>__init__\<close> sets, once \<open>os.getcwd()\<close> has returned \<open>d\<close>.\<close>

definition new_terminal :: "revision \<Rightarrow> 'w env \<Rightarrow> string \<Rightarrow> 'w \<Rightarrow> 'w terminal" where
  "new_terminal rv E d w =
     \<lparr>current_dir = d,
      system = lower (platform_system E),
      history = [],
      history_index = - 1,
      aliases = load_aliases rv (lower (platform_system E)),
      world = w,
      printed = [],
      printed_err = [],
      spawned = []\<rparr>"

text \<open>\<open>__init__\<close>: the exception of \<open>os.getcwd()\<close> leaves the constructor.\<close>

definition init :: "revision \<Rightarrow> 'w env \<Rightarrow> 'w \<Rightarrow> 'w terminal raises" where
  "init rv E w =
     (case getcwd E w of
        Inl e \<Rightarrow> Inl e
      | Inr d \<Rightarrow> Inr (new_terminal rv E d w))"

definition print :: "string \<Rightarrow> 'w terminal \<Rightarrow> 'w terminal" where
  "print s t = t\<lparr>printed := printed t @ [s]\<rparr>"

definition print_err :: "string \<Rightarrow> 'w terminal \<Rightarrow> 'w terminal" where
  "print_err s t = t\<lparr>printed_err := printed_err t @ [s]\<rparr>"

definition run_system :: "'w env \<Rightarrow> string \<Rightarrow> 'w terminal \<Rightarrow> 'w terminal" where
  "run_system E cmd t =
     t\<lparr>world := os_system E cmd (world t), spawned := spawned t @ [System cmd]\<rparr>"

definition clear_screen :: "'w env \<Rightarrow> 'w terminal \<Rightarrow> 'w terminal" where
  "clear_screen E t = run_system E (if system t = ''windows'' then ''cls'' else ''clear'') t"

definition get_prompt :: "'w env \<Rightarrow> 'w terminal \<Rightarrow> string raises" where
  "get_prompt E t =
     (case getlogin E of
        Inl e \<Rightarrow> Inl e
      | Inr username \<Rightarrow>
          (let hostname = platform_node E;
               cd = basename E (current_dir t)
           in Inr (if system t = ''windows'' then ''PS '' @ cd @ ''> ''
                   else if system t = ''darwin''
                        then username @ ''@'' @ hostname @ '' '' @ cd @ '' % ''
                        else username @ ''@'' @ hostname @ '':'' @ cd @ ''$ '')))"

subsection \<open>Navigation\<close>

text \<open>
  The first step of \<open>change_directory\<close>: the two sentinels. The result is the path to go on
  with, \<open>None\<close> when the current directory is its own parent, or the exception of
  \<open>Path.home()\<close>.
\<close>

definition special_path :: "'w env \<Rightarrow> string \<Rightarrow> string \<Rightarrow> string option raises" where
  "special_path E cur path =
     (if path = ''~'' then (case home E of Inl e \<Rightarrow> Inl e | Inr h \<Rightarrow> Inr (Some h))
      else if path = ''-''
           then (let previous = dirname E cur
                 in if previous \<noteq> cur then Inr (Some previous) else Inr None)
           else Inr (Some path))"

text \<open>Home expansion, joining onto the current directory, normalisation.\<close>

definition resolve_path :: "'w env \<Rightarrow> string \<Rightarrow> string \<Rightarrow> string" where
  "resolve_path E cur path =
     (let p1 = (if startswith path ''~'' then expanduser E path else path);
          p2 = (if \<not> isabs E p1 then path_join E cur p1 else p1)
      in normpath E p2)"

text \<open>
  \<open>change_directory\<close>, the same in both revisions; the boolean is its return value. When
  \<open>os.chdir\<close> has succeeded and \<open>os.getcwd()\<close> raises, the handler runs with the working
  directory of the process already changed.
\<close>

definition change_directory :: "'w env \<Rightarrow> string \<Rightarrow> 'w terminal \<Rightarrow> bool \<times> 'w terminal" where
  "change_directory E path t =
     (case special_path E (current_dir t) path of
        Inl e \<Rightarrow> (False, print (''Error changing directory: '' @ e) t)
      | Inr None \<Rightarrow> (True, print ''Already at root directory'' t)
      | Inr (Some p) \<Rightarrow>
          (let path' = resolve_path E (current_dir t) p
           in if path_exists E (world t) path' \<and> isdir E (world t) path'
              then (case chdir E path' (world t) of
                      Inl e \<Rightarrow> (False, print (''Error changing directory: '' @ e) t)
                    | Inr w' \<Rightarrow>
                        (case getcwd E w' of
                           Inl e \<Rightarrow>
                             (False, print (''Error changing directory: '' @ e) (t\<lparr>world := w'\<rparr>))
                         | Inr d \<Rightarrow> (True, t\<lparr>world := w', current_dir := d\<rparr>)))
              else (False, print (''Directory not found: '' @ path') t)))"

subsection \<open>Listing, directory creation, delegation\<close>

text \<open>\<open>list_directory\<close> of revision 1.0.0.\<close>

definition list_directory :: "'w env \<Rightarrow> string \<Rightarrow> 'w terminal \<Rightarrow> 'w terminal" where
  "list_directory E command t =
     (if system t = ''windows''
      then run_system E
             (''dir '' @ (if startswith (lower command) ''dir '' then drop 3 command else [])) t
      else run_system E
             (''ls '' @ (if startswith (lower command) ''ls '' then drop 3 command else [])) t)"

text \<open>
  \<open>mkdir\<close> of revision 1.0.1. What \<open>os.makedirs\<close> created before it raised stays.
\<close>

definition mkdir :: "'w env \<Rightarrow> string \<Rightarrow> 'w terminal \<Rightarrow> 'w terminal" where
  "mkdir E path t =
     (case home E of
        Inl e \<Rightarrow> print (''Error creating directory: '' @ e) t
      | Inr h \<Rightarrow>
          (let full_path = replace_char (CHR ''~'') h path
           in case makedirs E full_path (world t) of
                Inl (e, w') \<Rightarrow> print (''Error creating directory: '' @ e) (t\<lparr>world := w'\<rparr>)
              | Inr w' \<Rightarrow> print (''Directory created: '' @ full_path) (t\<lparr>world := w'\<rparr>)))"

text \<open>
  The external command: the line goes to the shell with the session's current directory;
  each captured stream that is not empty is stripped and printed on its channel.
\<close>

definition delegate :: "'w env \<Rightarrow> string \<Rightarrow> 'w terminal \<Rightarrow> 'w terminal" where
  "delegate E command t =
     (let t0 = t\<lparr>spawned := spawned t @ [Popen command (current_dir t)]\<rparr>
      in case popen E command (current_dir t) (world t) of
           Inl e \<Rightarrow> print (''Error executing command: '' @ e) t0
         | Inr (out, err, w') \<Rightarrow>
             (let t1 = t0\<lparr>world := w'\<rparr>;
                  t2 = (if out \<noteq> [] then print (strip out) t1 else t1)
              in if err \<noteq> [] then print_err (strip err) t2 else t2))"

definition help_text :: string where
  "help_text = str_join [CHR 0x0A]
     ['''',
      ''        Simple Cross-Platform Terminal'',
      ''        ------------------------------'',
      ''        '',
      ''        Basic Commands:'',
      ''          cd [directory]  - Change directory (use ~ for home, .. for parent)'',
      ''          ls / dir       - List directory contents'',
      ''          pwd            - Show current directory'',
      ''          clear / cls    - Clear screen'',
      ''          history        - Show command history'',
      ''          exit / quit    - Exit terminal'',
      ''        '',
      ''        File Operations:'',
      ''          cat [file]     - Show file content (type on Windows)'',
      ''          cp [src] [dst] - Copy files (copy on Windows)'',
      ''          mv [src] [dst] - Move files (move on Windows)'',
      ''          rm [file]      - Remove files (del on Windows)'',
      ''          mkdir [dir]    - Create directory'',
      ''          rmdir [dir]    - Remove directory'',
      ''        '',
      ''        System Info:'',
      ''          python --version  - Python version'',
      ''          pip list         - Installed packages'',
      ''          ver / systeminfo - System info (Windows)'',
      ''          uname -a         - System info (Unix)'',
      ''        '',
      ''        Aliases:'',
      ''          ll  - ls -la / dir with details'',
      ''          la  - ls -a  / show hidden files'',
      ''          ..  - cd ..'',
      ''          ... - cd ../..'',
      ''        '']"

definition show_help :: "'w terminal \<Rightarrow> 'w terminal" where
  "show_help t = print help_text t"

text \<open>The lines of the \<open>history\<close> built-in: the last ten entries, numbered from 1.\<close>

definition history_lines :: "string list \<Rightarrow> string list" where
  "history_lines h =
     map (\<lambda>(i, cmd). ''  '' @ str_of_nat i @ '': '' @ cmd)
         (zip [1 ..< Suc (length (drop (length h - 10) h))] (drop (length h - 10) h))"

definition show_history :: "'w terminal \<Rightarrow> 'w terminal" where
  "show_history t = fold print (''Command History:'' # history_lines (history t)) t"

subsection \<open>Dispatch\<close>

text \<open>
  \<open>execute_command\<close>. \<open>Inr (b, t)\<close>: the method returned \<open>b\<close>; \<open>Inl msg\<close>: an exception
  left the method (only \<open>Path.home()\<close> in the bare \<open>cd\<close> branch is outside every
  \<open>try\<close>), before any change of the terminal.
\<close>

definition execute_command_v100 ::
  "'w env \<Rightarrow> string \<Rightarrow> 'w terminal \<Rightarrow> (bool \<times> 'w terminal) raises" where
  "execute_command_v100 E command0 t =
     (if strip command0 = [] then Inr (True, t)
      else
        (let command = expand_aliases (aliases t) command0;
             cmd_lower = lower command
         in if startswith cmd_lower ''cd ''
              then Inr (change_directory E (strip (drop 3 command)) t)
            else if cmd_lower = ''cd''
              then (case home E of Inl e \<Rightarrow> Inl e | Inr h \<Rightarrow> Inr (change_directory E h t))
            else if cmd_lower \<in> set [''exit'', ''quit'']
              then Inr (False, print ''Goodbye!'' t)
            else if cmd_lower \<in> set [''clear'', ''cls'']
              then Inr (True, clear_screen E t)
            else if cmd_lower = ''pwd''
              then Inr (True, print (current_dir t) t)
            else if cmd_lower \<in> set [''ls'', ''dir'']
              then Inr (True, list_directory E command t)
            else if cmd_lower = ''history''
              then Inr (True, show_history t)
            else if cmd_lower = ''help''
              then Inr (True, show_help t)
            else Inr (True, delegate E command t)))"

definition execute_command_v101 ::
  "'w env \<Rightarrow> string \<Rightarrow> 'w terminal \<Rightarrow> (bool \<times> 'w terminal) raises" where
  "execute_command_v101 E command0 t =
     (if strip command0 = [] then Inr (True, t)
      else
        (let command = expand_aliases (aliases t) command0;
             cmd_lower = lower command
         in if startswith cmd_lower ''cd ''
              then Inr (change_directory E (strip (drop 3 command)) t)
            else if cmd_lower = ''cd''
              then (case home E of Inl e \<Rightarrow> Inl e | Inr h \<Rightarrow> Inr (change_directory E h t))
            else if cmd_lower \<in> set [''exit'', ''quit'']
              then Inr (False, print ''Goodbye!'' t)
            else if cmd_lower \<in> set [''clear'', ''cls'']
              then Inr (True, clear_screen E t)
            else if cmd_lower = ''pwd''
              then Inr (True, print (current_dir t) t)
            else if startswith cmd_lower ''mkdir''
              then (case split_maxsplit1 command of
                      _ # path # _ \<Rightarrow> Inr (True, mkdir E path t)
                    | _ \<Rightarrow> Inr (True, print ''mkdir: missing path'' t))
            else if cmd_lower \<in> set [''ls'', ''dir'']
              then Inr (True, run_system E command t)
            else Inr (True, delegate E command t)))"

fun execute_command ::
  "revision \<Rightarrow> 'w env \<Rightarrow> string \<Rightarrow> 'w terminal \<Rightarrow> (bool \<times> 'w terminal) raises" where
  "execute_command V1_0_0 = execute_command_v100"
| "execute_command V1_0_1 = execute_command_v101"

subsection \<open>The session loop\<close>

text \<open>
  What \<open>input(prompt)\<close> does in one iteration: it returns a line, or raises
  \<open>KeyboardInterrupt\<close>, \<open>EOFError\<close> or another exception.
\<close>

datatype input_event = Line string | KeyboardInterrupt | EOFError | InputException string

datatype session = Running | Terminated

definition interrupt_notice :: "revision \<Rightarrow> string" where
  "interrupt_notice rv =
     [CHR 0x0A] @ ''Use '' @ [CHR 0x27] @ ''exit'' @ [CHR 0x27] @
     (case rv of V1_0_0 \<Rightarrow> '' to quit the terminal'' | V1_0_1 \<Rightarrow> '' to quit'')"

text \<open>
  One pass through the body of the \<open>while True\<close> loop of \<open>run\<close>: \<open>Terminated\<close> when the
  pass ends in \<open>break\<close>, \<open>Running\<close> when the loop goes on. When \<open>get_prompt\<close> raises,
  \<open>input\<close> is not reached.
\<close>

definition run_iteration ::
  "revision \<Rightarrow> 'w env \<Rightarrow> input_event \<Rightarrow> 'w terminal \<Rightarrow> 'w terminal \<times> session" where
  "run_iteration rv E ev t =
     (case get_prompt E t of
        Inl e \<Rightarrow> (print (''Error: '' @ e) t, Running)
      | Inr prompt \<Rightarrow>
          (case ev of
             Line l \<Rightarrow>
               (let command = strip l
                in if command \<noteq> []
                   then (let t1 = t\<lparr>history := history t @ [command]\<rparr>
                         in case execute_command rv E command t1 of
                              Inl e \<Rightarrow> (print (''Error: '' @ e) t1, Running)
                            | Inr (continue, t2) \<Rightarrow>
                                (t2, if continue then Running else Terminated))
                   else (t, Running))
           | KeyboardInterrupt \<Rightarrow> (print (interrupt_notice rv) t, Running)
           | EOFError \<Rightarrow> (print ([CHR 0x0A] @ ''Goodbye!'') t, Terminated)
           | InputException e \<Rightarrow> (print (''Error: '' @ e) t, Running)))"

text \<open>
  The conditions under which the dispatcher of each revision handles the expanded line
  itself; every other line falls through to the external command.
\<close>

definition builtin_v100 :: "string \<Rightarrow> bool" where
  "builtin_v100 cmd_lower =
     (startswith cmd_lower ''cd '' \<or>
      cmd_lower \<in> set [''cd'', ''exit'', ''quit'', ''clear'', ''cls'', ''pwd'', ''ls'', ''dir'',
                        ''history'', ''help''])"

definition builtin_v101 :: "string \<Rightarrow> bool" where
  "builtin_v101 cmd_lower =
     (startswith cmd_lower ''cd '' \<or> startswith cmd_lower ''mkdir'' \<or>
      cmd_lower \<in> set [''cd'', ''exit'', ''quit'', ''clear'', ''cls'', ''pwd'', ''ls'', ''dir''])"

fun builtin :: "revision \<Rightarrow> string \<Rightarrow> bool" where
  "builtin V1_0_0 = builtin_v100"
| "builtin V1_0_1 = builtin_v101"

text \<open>The command text of a recorded call.\<close>

fun command_of :: "call \<Rightarrow> string" where
  "command_of (System c) = c"
| "command_of (Popen c d) = c"

text \<open>Going back \<open>n\<close> times with \<open>cd -\<close>, keeping the terminal of each attempt.\<close>

definition cd_previous :: "'w env \<Rightarrow> 'w terminal \<Rightarrow> 'w terminal" where
  "cd_previous E t = snd (change_directory E ''-'' t)"

section \<open>A POSIX host\<close>

text \<open>
  A small instance of the operating system, for evaluating the model at concrete inputs:
  the path functions of \<open>posixpath\<close>; a file system without symbolic links, given by the
  absolute normalised paths of its directories and regular files, the directories that may
  not be searched or entered (\<open>no_entry\<close>) and those whose path \<open>getcwd\<close> cannot read back
  (\<open>hidden\<close>); and a shell given as a function from the command line and its working
  directory to the two captured streams.
\<close>

record fs =
  cwd :: string
  directories :: "string list"
  regular_files :: "string list"
  no_entry :: "string list"
  hidden :: "string list"

definition posix_isabs :: "string \<Rightarrow> bool" where
  "posix_isabs p = startswith p ''/''"

definition posix_join :: "string \<Rightarrow> string \<Rightarrow> string" where
  "posix_join a b =
     (if startswith b ''/'' then b
      else if a = [] \<or> last a = CHR ''/'' then a @ b
      else a @ ''/'' @ b)"

definition posix_basename :: "string \<Rightarrow> string" where
  "posix_basename p = rev (takeWhile (\<lambda>c. c \<noteq> CHR ''/'') (rev p))"

definition posix_dirname :: "string \<Rightarrow> string" where
  "posix_dirname p =
     (let head = rev (dropWhile (\<lambda>c. c \<noteq> CHR ''/'') (rev p))
      in if head \<noteq> [] \<and> head \<noteq> replicate (length head) (CHR ''/'')
         then rev (dropWhile (\<lambda>c. c = CHR ''/'') (rev head))
         else head)"

text \<open>\<open>s.split(sep)\<close> for a one-character separator.\<close>

definition split_sep :: "char \<Rightarrow> string \<Rightarrow> string list" where
  "split_sep sep s =
     foldr (\<lambda>c acc. if c = sep then [] # acc else (c # hd acc) # tl acc) s [[]]"

fun norm_comps :: "bool \<Rightarrow> string list \<Rightarrow> string list \<Rightarrow> string list" where
  "norm_comps rooted new_comps [] = new_comps"
| "norm_comps rooted new_comps (c # comps) =
     (if c = [] \<or> c = ''.'' then norm_comps rooted new_comps comps
      else if c \<noteq> ''..'' \<or> (\<not> rooted \<and> new_comps = []) \<or>
              (new_comps \<noteq> [] \<and> last new_comps = ''..'')
           then norm_comps rooted (new_comps @ [c]) comps
           else if new_comps \<noteq> [] then norm_comps rooted (butlast new_comps) comps
           else norm_comps rooted new_comps comps)"

definition posix_normpath :: "string \<Rightarrow> string" where
  "posix_normpath path =
     (if path = [] then ''.''
      else
        (let initial_slashes =
               (if startswith path ''/''
                then (if startswith path ''//'' \<and> \<not> startswith path ''///'' then 2 else 1)
                else (0::nat));
             comps = norm_comps (0 < initial_slashes) [] (split_sep (CHR ''/'') path);
             p = replicate initial_slashes (CHR ''/'') @ str_join ''/'' comps
         in if p = [] then ''.'' else p))"

text \<open>Only the current user's home is known; \<open>~name\<close> is left as it is.\<close>

definition posix_expanduser :: "string \<Rightarrow> string \<Rightarrow> string" where
  "posix_expanduser userhome path =
     (if \<not> startswith path ''~'' then path
      else if path = ''~'' \<or> startswith path ''~/''
           then (let r = rev (dropWhile (\<lambda>c. c = CHR ''/'') (rev userhome)) @ drop 1 path
                 in if r = [] then ''/'' else r)
           else path)"

definition quoted :: "string \<Rightarrow> string" where
  "quoted p = [CHR 0x27] @ p @ [CHR 0x27]"

datatype os_error = ENOENT | EACCES | EEXIST | ENOTDIR | ENAMETOOLONG

fun strerror :: "os_error \<Rightarrow> string" where
  "strerror ENOENT = ''[Errno 2] No such file or directory''"
| "strerror EACCES = ''[Errno 13] Permission denied''"
| "strerror EEXIST = ''[Errno 17] File exists''"
| "strerror ENOTDIR = ''[Errno 20] Not a directory''"
| "strerror ENAMETOOLONG = ''[Errno 36] File name too long''"

text \<open>The text of an \<open>OSError\<close> raised for the path \<open>p\<close>.\<close>

definition os_message :: "os_error \<Rightarrow> string \<Rightarrow> string" where
  "os_message e p = strerror e @ '': '' @ quoted p"

text \<open>
  Path lookup as the kernel does it, one component at a time from the directory \<open>cur\<close>:
  every directory on the way must exist and be searchable, and \<open>..\<close> is the parent.
\<close>

fun walk :: "fs \<Rightarrow> string \<Rightarrow> string list \<Rightarrow> os_error + string" where
  "walk w cur [] = Inr cur"
| "walk w cur (c # cs) =
     (if cur \<in> set (regular_files w) then Inl ENOTDIR
      else if c = [] then walk w cur cs
      else if cur \<in> set (no_entry w) then Inl EACCES
      else if c = ''.'' then walk w cur cs
      else if c = ''..'' then walk w (posix_dirname cur) cs
      else if 255 < length c then Inl ENAMETOOLONG
      else if posix_join cur c \<in> set (regular_files w) \<or> posix_join cur c \<in> set (directories w)
           then walk w (posix_join cur c) cs
           else Inl ENOENT)"

definition lookup :: "fs \<Rightarrow> string \<Rightarrow> os_error + string" where
  "lookup w p =
     (if p = [] then Inl ENOENT
      else walk w (if posix_isabs p then ''/'' else cwd w) (split_sep (CHR ''/'') p))"

definition posix_exists :: "fs \<Rightarrow> string \<Rightarrow> bool" where
  "posix_exists w p = (case lookup w p of Inl e \<Rightarrow> False | Inr q \<Rightarrow> True)"

definition posix_isdir :: "fs \<Rightarrow> string \<Rightarrow> bool" where
  "posix_isdir w p = (case lookup w p of Inl e \<Rightarrow> False | Inr q \<Rightarrow> q \<in> set (directories w))"

definition posix_chdir :: "string \<Rightarrow> fs \<Rightarrow> fs raises" where
  "posix_chdir p w =
     (case lookup w p of
        Inl e \<Rightarrow> Inl (os_message e p)
      | Inr q \<Rightarrow>
          if q \<in> set (regular_files w) then Inl (os_message ENOTDIR p)
          else if q \<in> set (no_entry w) then Inl (os_message EACCES p)
          else Inr (w\<lparr>cwd := q\<rparr>))"

definition posix_getcwd :: "fs \<Rightarrow> string raises" where
  "posix_getcwd w = (if cwd w \<in> set (hidden w) then Inl (strerror EACCES) else Inr (cwd w))"

text \<open>\<open>os.mkdir\<close>: the parent is looked up and the last component is created in it.\<close>

definition posix_mkdir :: "string \<Rightarrow> fs \<Rightarrow> os_error + fs" where
  "posix_mkdir p w =
     (let comps = rev (dropWhile (\<lambda>c. c = []) (rev (split_sep (CHR ''/'') p)))
      in if p = [] then Inl ENOENT
         else if comps = [] then Inl EEXIST
         else
           (case walk w (if posix_isabs p then ''/'' else cwd w) (butlast comps) of
              Inl e \<Rightarrow> Inl e
            | Inr parent \<Rightarrow>
                if parent \<in> set (regular_files w) then Inl ENOTDIR
                else if last comps = ''.'' \<or> last comps = ''..'' then Inl EEXIST
                else if parent \<in> set (no_entry w) then Inl EACCES
                else if 255 < length (last comps) then Inl ENAMETOOLONG
                else if posix_join parent (last comps) \<in> set (directories w) \<or>
                        posix_join parent (last comps) \<in> set (regular_files w)
                     then Inl EEXIST
                     else Inr (w\<lparr>directories :=
                                   directories w @ [posix_join parent (last comps)]\<rparr>)))"

text \<open>
  \<open>os.makedirs(name, exist_ok=True)\<close>, as the library has it. Head and tail are those of
  \<open>os.path.split\<close>, taken once more when the tail is empty. When the head is missing it is
  made first (a \<open>FileExistsError\<close> of that call is passed over, any other exception
  leaves); then \<open>os.mkdir(name)\<close> runs, unless the tail is \<open>.\<close>, and its exception is
  dropped when \<open>name\<close> is a directory. An exception comes with the path it names and the
  file system reached.
\<close>

definition makedirs_head :: "string \<Rightarrow> string" where
  "makedirs_head name =
     (if posix_basename name = [] then posix_dirname (posix_dirname name)
      else posix_dirname name)"

definition makedirs_tail :: "string \<Rightarrow> string" where
  "makedirs_tail name =
     (if posix_basename name = [] then posix_basename (posix_dirname name)
      else posix_basename name)"

definition mkdir_exist_ok :: "string \<Rightarrow> fs \<Rightarrow> (os_error \<times> string \<times> fs) + fs" where
  "mkdir_exist_ok name w =
     (case posix_mkdir name w of
        Inr w' \<Rightarrow> Inr w'
      | Inl e \<Rightarrow> if \<not> posix_isdir w name then Inl (e, name, w) else Inr w)"

function posix_makedirs :: "string \<Rightarrow> fs \<Rightarrow> (os_error \<times> string \<times> fs) + fs" where
  "posix_makedirs name w =
     (if makedirs_head name \<noteq> [] \<and> makedirs_tail name \<noteq> [] \<and>
         \<not> posix_exists w (makedirs_head name)
      then (case posix_makedirs (makedirs_head name) w of
              Inl (e, n, w1) \<Rightarrow>
                if e = EEXIST
                then (if makedirs_tail name = ''.'' then Inr w1 else mkdir_exist_ok name w1)
                else Inl (e, n, w1)
            | Inr w1 \<Rightarrow> if makedirs_tail name = ''.'' then Inr w1 else mkdir_exist_ok name w1)
      else mkdir_exist_ok name w)"
  by pat_completeness auto
termination
proof (relation "measure (\<lambda>(name, w). length name)")
  show "wf (measure (\<lambda>(name :: string, w :: fs). length name))"
    by simp
next
  fix name :: string and w :: fs
  assume "makedirs_head name \<noteq> [] \<and> makedirs_tail name \<noteq> [] \<and>
          \<not> posix_exists w (makedirs_head name)"
  then have t: "makedirs_tail name \<noteq> []" by simp
  have split_le: "length (posix_dirname p) + length (posix_basename p) \<le> length p" for p
  proof -
    have "length (dropWhile (\<lambda>c. c \<noteq> CHR ''/'') (rev p)) +
          length (takeWhile (\<lambda>c. c \<noteq> CHR ''/'') (rev p)) = length p"
      by (metis add.commute length_append length_rev takeWhile_dropWhile_id)
    moreover have "length (posix_dirname p) \<le> length (dropWhile (\<lambda>c. c \<noteq> CHR ''/'') (rev p))"
      by (simp add: posix_dirname_def Let_def length_dropWhile_le)
    ultimately show ?thesis by (simp add: posix_basename_def)
  qed
  have "length (makedirs_head name) < length name"
  proof (cases "posix_basename name = []")
    case True
    with t have "posix_basename (posix_dirname name) \<noteq> []"
      by (simp add: makedirs_tail_def)
    then have "1 \<le> length (posix_basename (posix_dirname name))"
      by (cases "posix_basename (posix_dirname name)") simp_all
    with split_le [of name] split_le [of "posix_dirname name"]
    have "length (posix_dirname (posix_dirname name)) < length name" by linarith
    with True show ?thesis by (simp add: makedirs_head_def)
  next
    case False
    then have "1 \<le> length (posix_basename name)"
      by (cases "posix_basename name") simp_all
    with split_le [of name] have "length (posix_dirname name) < length name" by linarith
    with False show ?thesis by (simp add: makedirs_head_def)
  qed
  then show "((makedirs_head name, w), name, w) \<in> measure (\<lambda>(name, w). length name)"
    by simp
qed

declare posix_makedirs.simps [simp del]

definition posix_env :: "(string \<Rightarrow> string \<Rightarrow> (string \<times> string) raises) \<Rightarrow> fs env" where
  "posix_env sh =
     \<lparr>platform_system = ''Linux'',
      platform_node = ''host'',
      getlogin = Inr ''user'',
      home = Inr ''/home/user'',
      expanduser = posix_expanduser ''/home/user'',
      basename = posix_basename,
      dirname = posix_dirname,
      isabs = posix_isabs,
      path_join = posix_join,
      normpath = posix_normpath,
      path_exists = posix_exists,
      isdir = posix_isdir,
      chdir = posix_chdir,
      getcwd = posix_getcwd,
      makedirs = (\<lambda>p w. case posix_makedirs p w of
                          Inl (e, n, w') \<Rightarrow> Inl (os_message e n, w')
                        | Inr w' \<Rightarrow> Inr w'),
      os_system = (\<lambda>cmd w. w),
      popen = (\<lambda>cmd d w. case sh cmd d of
                            Inl e \<Rightarrow> Inl e
                          | Inr (out, err) \<Rightarrow> Inr (out, err, w))\<rparr>"

text \<open>A shell whose commands print nothing.\<close>

definition quiet :: "string \<Rightarrow> string \<Rightarrow> (string \<times> string) raises" where
  "quiet cmd d = Inr ([], [])"

text \<open>A file system with the directory \<open>/work\<close>, the file \<open>/work/notes\<close> and a home.\<close>

definition work_fs :: "string \<Rightarrow> fs" where
  "work_fs d =
     \<lparr>cwd = d,
      directories = [''/'', ''/home'', ''/home/user'', ''/work'', ''/locked''],
      regular_files = [''/work/notes''],
      no_entry = [''/locked''],
      hidden = []\<rparr>"

text \<open>
  A shell that knows two command lines: \<open>cat notes\<close> prints an indented line, and
  \<open>mkdir a/b\<close> fails as \<open>mkdir\<close> without \<open>-p\<close> does when \<open>a\<close> is missing; any other
  command is not found.
\<close>

definition demo_shell :: "string \<Rightarrow> string \<Rightarrow> (string \<times> string) raises" where
  "demo_shell cmd d =
     (if cmd = ''cat notes'' then Inr (''  indented'' @ [CHR 0x0A], [])
      else if cmd = ''mkdir a/b''
           then Inr ([], ''mkdir: cannot create directory '' @ quoted ''a/b'' @
                         '': No such file or directory'' @ [CHR 0x0A])
           else Inr ([], ''sh: 1: '' @ takeWhile (\<lambda>c. c \<noteq> CHR '' '') cmd @ '': not found'' @
                         [CHR 0x0A]))"

text \<open>A shell that cannot be started.\<close>

definition no_shell :: "string \<Rightarrow> string \<Rightarrow> (string \<times> string) raises" where
  "no_shell cmd d = Inl (''[Errno 2] No such file or directory: '' @ quoted ''/bin/sh'')"

text \<open>
  The fresh terminal of revision \<open>rv\<close> on that host, started in the directory \<open>d\<close>: what
  \<open>init\<close> returns there.
\<close>

definition start_session ::
  "revision \<Rightarrow> (string \<Rightarrow> string \<Rightarrow> (string \<times> string) raises) \<Rightarrow> string \<Rightarrow> fs terminal" where
  "start_session rv sh d = new_terminal rv (posix_env sh) d (work_fs d)"

text \<open>
  The same file system with one more directory, \<open>/vault\<close>, which can be entered but whose
  path cannot be read back.
\<close>

definition vault_fs :: fs where
  "vault_fs =
     (work_fs ''/work'')
       \<lparr>directories := directories (work_fs ''/work'') @ [''/vault''], hidden := [''/vault'']\<rparr>"

text \<open>
  Renaming the directory \<open>old\<close> to \<open>new\<close>: every path at or below it follows, the working
  directory of the process among them.
\<close>

definition rename_path :: "string \<Rightarrow> string \<Rightarrow> string \<Rightarrow> string" where
  "rename_path old new p =
     (if p = old then new
      else if startswith p (old @ ''/'') then new @ drop (length old) p
      else p)"

definition rename_dir :: "string \<Rightarrow> string \<Rightarrow> fs \<Rightarrow> fs" where
  "rename_dir old new w =
     \<lparr>cwd = rename_path old new (cwd w),
      directories = map (rename_path old new) (directories w),
      regular_files = map (rename_path old new) (regular_files w),
      no_entry = map (rename_path old new) (no_entry w),
      hidden = map (rename_path old new) (hidden w)\<rparr>"

text \<open>The POSIX host with a shell whose \<open>mv /work /moved\<close> renames that directory.\<close>

definition mv_host :: "fs env" where
  "mv_host =
     (posix_env quiet)
       \<lparr>popen := (\<lambda>cmd d w. if cmd = ''mv /work /moved''
                              then Inr ([], [], rename_dir ''/work'' ''/moved'' w)
                              else Inr ([], [], w))\<rparr>"

section \<open>Alias expansion\<close>

lemma isspace_space: "isspace (CHR '' '')"
  by (simp add: isspace_def whitespace_def)

lemma split_acc_nonspace:
  "\<forall>c\<in>set xs. \<not> isspace c \<Longrightarrow> split_acc cur (xs @ ys) = split_acc (cur @ xs) ys"
  by (induction xs arbitrary: cur) auto

lemma split_token_space:
  assumes "t \<noteq> []" and "\<forall>c\<in>set t. \<not> isspace c" and "isspace s"
  shows "split (t @ s # a) = t # split a"
  using assms by (simp add: split_def split_acc_nonspace)

lemma split_acc_tokens:
  "\<forall>c\<in>set cur. \<not> isspace c \<Longrightarrow>
   \<forall>x\<in>set (split_acc cur s). x \<noteq> [] \<and> (\<forall>c\<in>set x. \<not> isspace c)"
proof (induction s arbitrary: cur)
  case Nil
  then show ?case by simp
next
  case (Cons a s)
  have e: "\<forall>x\<in>set (split_acc [] s). x \<noteq> [] \<and> (\<forall>c\<in>set x. \<not> isspace c)"
    using Cons.IH [of "[]"] by simp
  show ?case
  proof (cases "isspace a")
    case True
    with e Cons.prems show ?thesis by simp
  next
    case False
    with Cons.prems have "\<forall>c\<in>set (cur @ [a]). \<not> isspace c" by simp
    from Cons.IH [OF this] False show ?thesis by simp
  qed
qed

lemma split_tokens: "\<forall>x\<in>set (split s). x \<noteq> [] \<and> (\<forall>c\<in>set x. \<not> isspace c)"
  using split_acc_tokens [of "[]" s] by (simp add: split_def)

lemma expand_aliases_not_key:
  "split line = [] \<or> A (hd (split line)) = None \<Longrightarrow> expand_aliases A line = line"
  by (auto simp: expand_aliases_def split: list.splits)

text \<open>
  C3, as amended. For every key \<open>t\<close> of the alias table that is one token (not empty, no
  whitespace) and every argument string \<open>a\<close> that is already its own tokens joined by
  single spaces, expanding \<open>t + " " + a\<close> gives \<open>aliases[t] + " " + a\<close>; and a line whose
  first token is not a key of the table (or that has no token) is returned unchanged.
\<close>

theorem expand_aliases_single_spaced:
  "(A t = Some e \<and> t \<noteq> [] \<and> (\<forall>c\<in>set t. \<not> isspace c) \<and> str_join '' '' (split a) = a
      \<longrightarrow> expand_aliases A (t @ '' '' @ a) = e @ '' '' @ a)
   \<and> (split line = [] \<or> A (hd (split line)) = None
      \<longrightarrow> expand_aliases A line = line)"
proof (intro conjI impI)
  assume h: "A t = Some e \<and> t \<noteq> [] \<and> (\<forall>c\<in>set t. \<not> isspace c)
             \<and> str_join '' '' (split a) = a"
  then have "split (t @ '' '' @ a) = t # split a"
    using split_token_space [of t "CHR '' ''" a] isspace_space by simp
  with h show "expand_aliases A (t @ '' '' @ a) = e @ '' '' @ a"
    by (simp add: expand_aliases_def)
next
  assume "split line = [] \<or> A (hd (split line)) = None"
  then show "expand_aliases A line = line"
    by (rule expand_aliases_not_key)
qed

text \<open>
  C3, an instance of the amended statement: \<open>ll -h /tmp\<close> on a Linux host, and the line
  \<open>echo  hi\<close>, whose first token is no alias.
\<close>

theorem expand_aliases_single_spaced_witness:
  "load_aliases V1_0_0 ''linux'' ''ll'' = Some ''ls -la''
   \<and> str_join '' '' (split ''-h /tmp'') = ''-h /tmp''
   \<and> expand_aliases (load_aliases V1_0_0 ''linux'') (''ll'' @ '' '' @ ''-h /tmp'') =
       ''ls -la'' @ '' '' @ ''-h /tmp''
   \<and> load_aliases V1_0_0 ''linux'' (hd (split ''echo  hi'')) = None
   \<and> expand_aliases (load_aliases V1_0_0 ''linux'') ''echo  hi'' = ''echo  hi''"
proof -
  let ?A = "load_aliases V1_0_0 ''linux''"
  have 1: "?A ''ll'' = Some ''ls -la'' \<and> ''ll'' \<noteq> [] \<and> (\<forall>c\<in>set ''ll''. \<not> isspace c)
           \<and> str_join '' '' (split ''-h /tmp'') = ''-h /tmp''"
    by (simp add: load_aliases_def base_aliases_def split_def isspace_def whitespace_def)
  have 2: "?A (hd (split ''echo  hi'')) = None"
    by (simp add: load_aliases_def base_aliases_def split_def isspace_def whitespace_def)
  from expand_aliases_single_spaced [of ?A "''ll''" "''ls -la''" "''-h /tmp''" "''echo  hi''"] 1 2
  show ?thesis by blast
qed

text \<open>
  C3, as stated, fails where the arguments are separated by more than one space: with the
  key \<open>ll\<close> and the argument string \<open>a  b\<close> the expansion is \<open>ls -la a b\<close>.
\<close>

theorem expand_aliases_counterexample:
  "load_aliases V1_0_0 ''linux'' ''ll'' = Some ''ls -la''
   \<and> expand_aliases (load_aliases V1_0_0 ''linux'') (''ll'' @ '' '' @ ''a  b'') = ''ls -la a b''
   \<and> expand_aliases (load_aliases V1_0_0 ''linux'') (''ll'' @ '' '' @ ''a  b'')
       \<noteq> ''ls -la'' @ '' '' @ ''a  b''"
  by (simp add: expand_aliases_def load_aliases_def base_aliases_def split_def isspace_def
      whitespace_def)

text \<open>
  C9. When the first token of a line is an alias key, the expanded line is the expansion,
  one space, and the remaining tokens joined by single spaces: a bare alias token gives the
  expansion followed by one space, and the remaining tokens carry no whitespace, so every
  run of whitespace between them has become one space.
\<close>

theorem expand_aliases_rejoins:
  assumes "split line = t # args" and "A t = Some e"
  shows "expand_aliases A line = e @ '' '' @ str_join '' '' args
         \<and> (args = [] \<longrightarrow> expand_aliases A line = e @ '' '')
         \<and> (\<forall>x\<in>set args. x \<noteq> [] \<and> (\<forall>c\<in>set x. \<not> isspace c))"
proof -
  have "\<forall>x\<in>set (t # args). x \<noteq> [] \<and> (\<forall>c\<in>set x. \<not> isspace c)"
    using split_tokens [of line] assms(1) by simp
  then show ?thesis using assms by (simp add: expand_aliases_def)
qed

text \<open>C9 at the lines \<open>cls\<close> and \<open>ll  -h   /tmp\<close> of a Linux host.\<close>

theorem expand_aliases_rejoins_witness:
  "split ''cls'' = [''cls''] \<and> load_aliases V1_0_1 ''linux'' ''cls'' = Some ''clear''
   \<and> expand_aliases (load_aliases V1_0_1 ''linux'') ''cls'' = ''clear ''
   \<and> split ''ll  -h   /tmp'' = [''ll'', ''-h'', ''/tmp'']
   \<and> expand_aliases (load_aliases V1_0_1 ''linux'') ''ll  -h   /tmp'' = ''ls -la -h /tmp''"
proof -
  let ?A = "load_aliases V1_0_1 ''linux''"
  have s1: "split ''cls'' = ''cls'' # []"
    by (simp add: split_def isspace_def whitespace_def)
  have a1: "?A ''cls'' = Some ''clear''"
    by (simp add: load_aliases_def base_aliases_def)
  have s2: "split ''ll  -h   /tmp'' = ''ll'' # [''-h'', ''/tmp'']"
    by (simp add: split_def isspace_def whitespace_def)
  have a2: "?A ''ll'' = Some ''ls -la''"
    by (simp add: load_aliases_def base_aliases_def)
  from expand_aliases_rejoins [of "''cls''" "''cls''" "[]" ?A "''clear''", OF s1 a1]
       expand_aliases_rejoins [of "''ll  -h   /tmp''" "''ll''" "[''-h'', ''/tmp'']" ?A "''ls -la''",
         OF s2 a2] s1 s2 a1
  show ?thesis by simp
qed

section \<open>The dispatcher\<close>

lemma startswith_iff: "startswith s p \<longleftrightarrow> (\<exists>r. s = p @ r)"
  unfolding startswith_def
  by (metis append_eq_conv_conj append_take_drop_id)

lemma execute_command_delegates:
  assumes "strip line \<noteq> []" and "\<not> builtin rv (lower (expand_aliases (aliases t) line))"
  shows "execute_command rv E line t = Inr (True, delegate E (expand_aliases (aliases t) line) t)"
  using assms
  by (cases rv) (simp_all add: execute_command_v100_def execute_command_v101_def
      builtin_v100_def builtin_v101_def Let_def)

lemma mkdir_prefix_excludes:
  assumes "startswith x ''mkdir''"
  shows "\<not> startswith x ''cd ''" and "x \<notin> set [''cd'', ''exit'', ''quit'', ''clear'', ''cls'', ''pwd'']"
  using assms by (auto simp: startswith_iff)

lemma mkdir_spawned: "spawned (mkdir E p t) = spawned t"
  by (simp add: mkdir_def print_def Let_def split: sum.splits prod.splits)

lemma mkdir_prefix_dispatch:
  assumes "strip line \<noteq> []"
    and "startswith (lower (expand_aliases (aliases t) line)) ''mkdir''"
  shows "execute_command V1_0_1 E line t =
           Inr (True, case split_maxsplit1 (expand_aliases (aliases t) line) of
                        _ # path # _ \<Rightarrow> mkdir E path t
                      | _ \<Rightarrow> print ''mkdir: missing path'' t)"
  using assms mkdir_prefix_excludes [OF assms(2)]
  by (simp add: execute_command_v101_def Let_def split: list.splits)

lemma mkdir_dispatch_spawned:
  "spawned (case xs of _ # path # _ \<Rightarrow> mkdir E path t | _ \<Rightarrow> print ''mkdir: missing path'' t)
     = spawned t"
  by (simp add: mkdir_spawned print_def split: list.splits)

lemma rev_dropWhile_frame:
  "rev (dropWhile P (rev xs)) @ rev (takeWhile P (rev xs)) = xs"
proof -
  have "rev (dropWhile P (rev xs)) @ rev (takeWhile P (rev xs)) =
        rev (takeWhile P (rev xs) @ dropWhile P (rev xs))"
    by (simp only: rev_append)
  also have "\<dots> = rev (rev xs)" by (simp only: takeWhile_dropWhile_id)
  also have "\<dots> = xs" by (simp only: rev_rev_ident)
  finally show ?thesis .
qed

lemma strip_ends: "strip s \<noteq> [] \<Longrightarrow> \<not> isspace (hd (strip s)) \<and> \<not> isspace (last (strip s))"
proof -
  assume n: "strip s \<noteq> []"
  define z where "z = dropWhile isspace s"
  define r where "r = dropWhile isspace (rev z)"
  define b where "b = rev (takeWhile isspace (rev z))"
  have y: "strip s = rev r" by (simp add: strip_def r_def z_def)
  from n y have rn: "r \<noteq> []" by simp
  then have l: "\<not> isspace (hd r)" unfolding r_def by (rule hd_dropWhile)
  have zr: "z = rev r @ b"
    unfolding r_def b_def by (simp only: rev_dropWhile_frame)
  with rn have zn: "z \<noteq> []" by simp
  then have hz: "\<not> isspace (hd z)" unfolding z_def by (rule hd_dropWhile)
  from zr rn have "hd z = hd (rev r)" by simp
  with hz l y rn show ?thesis by (simp add: last_rev)
qed

lemma strip_idem: "strip (strip s) = strip s"
proof (cases "strip s = []")
  case True
  have "strip [] = []" by (simp add: strip_def)
  with True show ?thesis by simp
next
  case False
  from strip_ends [OF False] False
  have a: "dropWhile isspace (strip s) = strip s"
    by (simp add: dropWhile_eq_self_iff)
  from strip_ends [OF False] False
  have b: "dropWhile isspace (rev (strip s)) = rev (strip s)"
    by (simp add: dropWhile_eq_self_iff hd_rev)
  have "strip (strip s) = rev (dropWhile isspace (rev (dropWhile isspace (strip s))))"
    by (simp add: strip_def)
  with a b show ?thesis by simp
qed

lemma strip_frame:
  "\<exists>a b. s = a @ strip s @ b \<and> (\<forall>c\<in>set a. isspace c) \<and> (\<forall>c\<in>set b. isspace c)"
proof -
  define z where "z = dropWhile isspace s"
  define b where "b = rev (takeWhile isspace (rev z))"
  have 1: "s = takeWhile isspace s @ z" by (simp add: z_def)
  have "rev (dropWhile isspace (rev z)) @ b = z"
    unfolding b_def by (simp only: rev_dropWhile_frame)
  then have "z = strip s @ b" by (simp add: strip_def z_def)
  with 1 have "s = takeWhile isspace s @ strip s @ b" by simp
  moreover have "\<forall>c\<in>set (takeWhile isspace s). isspace c"
    by (auto dest: set_takeWhileD)
  moreover have "\<forall>c\<in>set b. isspace c"
    unfolding b_def by (auto dest: set_takeWhileD)
  ultimately show ?thesis by blast
qed

lemma run_iteration_line:
  assumes "getlogin E = Inr u" and "strip l \<noteq> []"
  shows "run_iteration rv E (Line l) t =
           (case execute_command rv E (strip l) (t\<lparr>history := history t @ [strip l]\<rparr>) of
              Inl e \<Rightarrow> (print (''Error: '' @ e) (t\<lparr>history := history t @ [strip l]\<rparr>), Running)
            | Inr (continue, t2) \<Rightarrow> (t2, if continue then Running else Terminated))"
  using assms by (simp add: run_iteration_def get_prompt_def Let_def)


text \<open>
  C10. In revision 1.0.1 every line whose expanded, lowercased form starts with the five
  characters \<open>mkdir\<close> is handled by the mkdir built-in: the text after the first token
  (\<open>split(maxsplit=1)\<close>) is the path, a line with no second part gets the usage message, the
  method returns \<open>True\<close>, and nothing is handed to the shell.
\<close>

theorem mkdir_prefix_selects_builtin:
  assumes "strip line \<noteq> []"
    and "startswith (lower (expand_aliases (aliases t) line)) ''mkdir''"
  shows "execute_command V1_0_1 E line t =
           Inr (True, case split_maxsplit1 (expand_aliases (aliases t) line) of
                        _ # path # _ \<Rightarrow> mkdir E path t
                      | _ \<Rightarrow> print ''mkdir: missing path'' t)
         \<and> (\<forall>t'. execute_command V1_0_1 E line t = Inr (True, t') \<longrightarrow> spawned t' = spawned t)"
  using mkdir_prefix_dispatch [OF assms, of E] mkdir_dispatch_spawned by auto

section \<open>Navigation\<close>

text \<open>
  No table that \<open>load_aliases\<close> builds has \<open>cd\<close>, \<open>mkdir\<close> or \<open>history\<close> as a key, on
  any platform.
\<close>

lemma load_aliases_not_keys:
  "load_aliases rv sys ''cd'' = None"
  "load_aliases rv sys ''mkdir'' = None"
  "load_aliases rv sys ''history'' = None"
  by (cases rv; simp add: load_aliases_def base_aliases_def windows_aliases_def map_add_def)+

text \<open>A fresh terminal takes its current directory from the process.\<close>

lemma init_in_step: "init rv E w = Inr t \<Longrightarrow> getcwd E (world t) = Inr (current_dir t)"
  by (auto simp: init_def new_terminal_def split: sum.splits)

text \<open>On the POSIX host \<open>init\<close> returns the terminal that \<open>start_session\<close> names.\<close>

lemma init_start_session: "init rv (posix_env sh) (work_fs d) = Inr (start_session rv sh d)"
  by (simp add: init_def start_session_def posix_env_def posix_getcwd_def work_fs_def)

text \<open>
  On the POSIX host, where no directory is hidden, \<open>getcwd\<close> returns after every \<open>chdir\<close>
  that succeeded.
\<close>

lemma host_getcwd_after_chdir:
  assumes "hidden w = []" and "chdir (posix_env sh) p w = Inr w'"
  shows "getcwd (posix_env sh) w' = Inr (cwd w')"
  using assms
  by (auto simp: posix_env_def posix_chdir_def posix_getcwd_def split: sum.splits if_splits)

lemma cd_minus_line:
  assumes "aliases t ''cd'' = None"
  shows "execute_command rv E ''cd -'' t = Inr (change_directory E ''-'' t)"
proof -
  have s: "split ''cd -'' = [''cd'', ''-'']"
    by (simp add: split_def isspace_def whitespace_def)
  have x: "expand_aliases (aliases t) ''cd -'' = ''cd -''"
    using assms s by (simp add: expand_aliases_def)
  have l: "lower ''cd -'' = ''cd -''"
    by (simp add: lower_def lower_char_def upper_chars_def lower_chars_def)
  have p: "strip ''cd -'' = ''cd -''" "strip ''-'' = ''-''"
    by (simp_all add: strip_def isspace_def whitespace_def)
  show ?thesis
    by (cases rv) (simp_all add: execute_command_v100_def execute_command_v101_def x l p
        startswith_def)
qed

lemma change_directory_at_root:
  assumes "dirname E (current_dir t) = current_dir t"
  shows "change_directory E ''-'' t = (True, print ''Already at root directory'' t)"
  using assms by (simp add: change_directory_def special_path_def)

lemma cd_previous_at_root:
  assumes "dirname E (current_dir t) = current_dir t"
  shows "current_dir ((cd_previous E ^^ n) t) = current_dir t
         \<and> world ((cd_previous E ^^ n) t) = world t
         \<and> aliases ((cd_previous E ^^ n) t) = aliases t
         \<and> printed ((cd_previous E ^^ n) t) = printed t @ replicate n ''Already at root directory''"
proof (induction n)
  case 0
  then show ?case by simp
next
  case (Suc n)
  let ?u = "(cd_previous E ^^ n) t"
  from Suc assms have "dirname E (current_dir ?u) = current_dir ?u" by simp
  then have "cd_previous E ?u = print ''Already at root directory'' ?u"
    by (simp add: cd_previous_def change_directory_at_root)
  with Suc show ?case by (simp add: print_def replicate_append_same)
qed


text \<open>
  C8. When the current directory is its own parent and \<open>cd\<close> is no alias, then after any
  number \<open>n\<close> of earlier \<open>cd -\<close> attempts the next one returns \<open>True\<close> and prints the
  notice, and the current directory and the operating system are still those of the start.
\<close>

theorem cd_previous_at_root_stays:
  assumes "dirname E (current_dir t) = current_dir t" and "aliases t ''cd'' = None"
  shows "execute_command rv E ''cd -'' ((cd_previous E ^^ n) t) =
           Inr (True, print ''Already at root directory'' ((cd_previous E ^^ n) t))
         \<and> change_directory E ''-'' ((cd_previous E ^^ n) t) =
             (True, print ''Already at root directory'' ((cd_previous E ^^ n) t))
         \<and> current_dir ((cd_previous E ^^ n) t) = current_dir t
         \<and> world ((cd_previous E ^^ n) t) = world t"
proof -
  let ?u = "(cd_previous E ^^ n) t"
  from cd_previous_at_root [OF assms(1), of n]
  have u: "dirname E (current_dir ?u) = current_dir ?u" "aliases ?u ''cd'' = None"
    using assms by simp_all
  from cd_minus_line [OF u(2)] change_directory_at_root [OF u(1)]
  have "execute_command rv E ''cd -'' ?u = Inr (True, print ''Already at root directory'' ?u)"
    by simp
  with change_directory_at_root [OF u(1)] cd_previous_at_root [OF assms(1), of n]
  show ?thesis by simp
qed

text \<open>
  C2, as amended. For every navigation attempt: one that returns \<open>False\<close> leaves the
  session's current directory as it was, and the operating system too, provided \<open>getcwd\<close>
  does not raise after a \<open>chdir\<close> that succeeded; one that returns \<open>True\<close> either only
  printed the root notice, or changed the working directory with \<open>chdir\<close> and set the
  session's current directory to what \<open>getcwd\<close> then returned; so, if the session's
  current directory was the working directory of the process before the attempt, and
  \<open>getcwd\<close> does not raise after a \<open>chdir\<close> that succeeded, it is so after.
\<close>

theorem change_directory_in_step:
  assumes "change_directory E path t = (ok, t')"
  shows "(\<not> ok \<longrightarrow> current_dir t' = current_dir t)
         \<and> (\<not> ok \<and> (\<forall>p w'. chdir E p (world t) = Inr w' \<longrightarrow> (\<exists>d. getcwd E w' = Inr d))
              \<longrightarrow> world t' = world t)
         \<and> (ok \<longrightarrow> t' = print ''Already at root directory'' t
                  \<or> (\<exists>p. chdir E p (world t) = Inr (world t'))
                      \<and> getcwd E (world t') = Inr (current_dir t'))
         \<and> (getcwd E (world t) = Inr (current_dir t)
              \<and> (\<forall>p w'. chdir E p (world t) = Inr w' \<longrightarrow> (\<exists>d. getcwd E w' = Inr d))
              \<longrightarrow> getcwd E (world t') = Inr (current_dir t'))"
proof -
  let ?H = "\<forall>p w'. chdir E p (world t) = Inr w' \<longrightarrow> (\<exists>d. getcwd E w' = Inr d)"
  have 1: "\<not> ok \<longrightarrow> current_dir t' = current_dir t"
    using assms
    by (auto simp: change_directory_def print_def Let_def
        split: sum.splits option.splits if_splits)
  have 2: "\<not> ok \<and> ?H \<longrightarrow> world t' = world t"
    using assms
    by (fastforce simp: change_directory_def print_def Let_def
        split: sum.splits option.splits if_splits)
  have 3: "ok \<longrightarrow> t' = print ''Already at root directory'' t
                  \<or> (\<exists>p. chdir E p (world t) = Inr (world t'))
                      \<and> getcwd E (world t') = Inr (current_dir t')"
    using assms
    by (auto simp: change_directory_def print_def Let_def
        split: sum.splits option.splits if_splits)
  have 4: "getcwd E (world t) = Inr (current_dir t) \<and> ?H
            \<longrightarrow> getcwd E (world t') = Inr (current_dir t')"
  proof (cases ok)
    case True
    with 3 show ?thesis by (auto simp: print_def)
  next
    case False
    with 1 2 show ?thesis by auto
  qed
  from 1 2 3 4 show ?thesis by blast
qed

section \<open>Directory creation\<close>

lemma lower_space: "lower_char (CHR '' '') = CHR '' ''"
  by (simp add: lower_char_def upper_chars_def lower_chars_def)

lemma lower_literals:
  "lower ''mkdir'' = ''mkdir''" "lower ''history'' = ''history''" "lower '' '' = '' ''"
  by (simp_all add: lower_def lower_char_def upper_chars_def lower_chars_def)

lemma strip_literals:
  "strip ''mkdir'' = ''mkdir''" "strip ''history'' = ''history''"
  by (simp_all add: strip_def isspace_def whitespace_def)

lemma split_literals:
  "split ''mkdir'' = [''mkdir'']" "split ''history'' = [''history'']"
  by (simp_all add: split_def isspace_def whitespace_def)

lemma strip_mkdir_arg: "strip (''mkdir '' @ p) \<noteq> []"
proof -
  have "dropWhile isspace (''mkdir '' @ p) = ''mkdir '' @ p"
    by (simp add: isspace_def whitespace_def)
  then have "strip (''mkdir '' @ p) = rev (dropWhile isspace (rev p @ '' ridkm''))"
    by (simp add: strip_def)
  also have "\<dots> \<noteq> []"
    by (simp add: dropWhile_append isspace_def whitespace_def)
  finally show ?thesis .
qed

lemma split_maxsplit1_mkdir:
  "split_maxsplit1 (''mkdir '' @ p) =
     (if dropWhile isspace p = [] then [''mkdir''] else [''mkdir'', dropWhile isspace p])"
  by (simp add: split_maxsplit1_def isspace_def whitespace_def Let_def)

lemma expand_mkdir_arg:
  assumes "aliases t ''mkdir'' = None"
  shows "expand_aliases (aliases t) (''mkdir '' @ p) = ''mkdir '' @ p"
    and "expand_aliases (aliases t) ''mkdir'' = ''mkdir''"
proof -
  have "split (''mkdir'' @ CHR '' '' # p) = ''mkdir'' # split p"
    by (rule split_token_space) (simp_all add: isspace_def whitespace_def)
  with assms show "expand_aliases (aliases t) (''mkdir '' @ p) = ''mkdir '' @ p"
    by (simp add: expand_aliases_def)
  from assms show "expand_aliases (aliases t) ''mkdir'' = ''mkdir''"
    by (simp add: expand_aliases_def split_literals)
qed

lemma lower_mkdir_arg: "lower (''mkdir '' @ p) = ''mkdir '' @ lower p"
  by (simp add: lower_def lower_char_def upper_chars_def lower_chars_def)

lemma mkdir_line_v101:
  assumes "aliases t ''mkdir'' = None" and "dropWhile isspace p \<noteq> []"
  shows "execute_command V1_0_1 E (''mkdir '' @ p) t = Inr (True, mkdir E (dropWhile isspace p) t)"
proof -
  have x: "expand_aliases (aliases t) (''mkdir '' @ p) = ''mkdir '' @ p"
    by (rule expand_mkdir_arg(1) [OF assms(1)])
  have s: "startswith (lower (expand_aliases (aliases t) (''mkdir '' @ p))) ''mkdir''"
    unfolding x lower_mkdir_arg by (simp add: startswith_def)
  from mkdir_prefix_dispatch [OF strip_mkdir_arg s, of E]
  have "execute_command V1_0_1 E (''mkdir '' @ p) t =
           Inr (True, case split_maxsplit1 (''mkdir '' @ p) of
                        _ # path # _ \<Rightarrow> mkdir E path t
                      | _ \<Rightarrow> print ''mkdir: missing path'' t)"
    unfolding x .
  then show ?thesis
    unfolding split_maxsplit1_mkdir using assms(2) by auto
qed

lemma mkdir_bare_v101:
  assumes "aliases t ''mkdir'' = None"
  shows "execute_command V1_0_1 E ''mkdir'' t = Inr (True, print ''mkdir: missing path'' t)"
proof -
  have "split_maxsplit1 ''mkdir'' = [''mkdir'']"
    by (simp add: split_maxsplit1_def isspace_def whitespace_def Let_def)
  then show ?thesis
    by (simp add: execute_command_v101_def expand_mkdir_arg [OF assms] lower_literals
        strip_literals startswith_def)
qed

lemma mkdir_line_v100:
  assumes "aliases t ''mkdir'' = None"
  shows "execute_command V1_0_0 E (''mkdir '' @ p) t = Inr (True, delegate E (''mkdir '' @ p) t)"
    and "execute_command V1_0_0 E ''mkdir'' t = Inr (True, delegate E ''mkdir'' t)"
proof -
  have x: "expand_aliases (aliases t) (''mkdir '' @ p) = ''mkdir '' @ p"
    by (rule expand_mkdir_arg(1) [OF assms])
  have "\<not> builtin V1_0_0 (lower (expand_aliases (aliases t) (''mkdir '' @ p)))"
    unfolding x lower_mkdir_arg by (simp add: builtin_v100_def startswith_def)
  from execute_command_delegates [OF strip_mkdir_arg this, of E]
  show "execute_command V1_0_0 E (''mkdir '' @ p) t = Inr (True, delegate E (''mkdir '' @ p) t)"
    unfolding x .
  have y: "expand_aliases (aliases t) ''mkdir'' = ''mkdir''"
    by (rule expand_mkdir_arg(2) [OF assms])
  have "\<not> builtin V1_0_0 (lower (expand_aliases (aliases t) ''mkdir''))"
    unfolding y lower_literals by (simp add: builtin_v100_def startswith_def)
  moreover have "strip ''mkdir'' \<noteq> []" by (simp add: strip_literals)
  ultimately show "execute_command V1_0_0 E ''mkdir'' t = Inr (True, delegate E ''mkdir'' t)"
    using execute_command_delegates [of "''mkdir''" V1_0_0 t E] unfolding y by blast
qed

lemma mkdir_result:
  assumes "home E = Inr h"
  shows "makedirs E (replace_char (CHR ''~'') h q) (world t) = Inr w' \<Longrightarrow>
           mkdir E q t =
             print (''Directory created: '' @ replace_char (CHR ''~'') h q) (t\<lparr>world := w'\<rparr>)"
    and "makedirs E (replace_char (CHR ''~'') h q) (world t) = Inl (e, w1) \<Longrightarrow>
           mkdir E q t = print (''Error creating directory: '' @ e) (t\<lparr>world := w1\<rparr>)"
  using assms by (simp_all add: mkdir_def Let_def)

text \<open>
  C5, as amended. When \<open>mkdir\<close> is no alias and the home directory is known: in revision
  1.0.1 the line \<open>mkdir <path>\<close> hands the path, with every \<open>~\<close> replaced by the home
  directory, to \<open>makedirs\<close>; when \<open>makedirs\<close> returns, the operating system is the one it
  returns and the path is reported; when it raises, the error is reported and the
  operating system is the one \<open>makedirs\<close> had reached; a bare \<open>mkdir\<close> reports the missing
  path; in revision 1.0.0 both lines go to the external command. In every case the method
  returns \<open>True\<close>, so the loop goes on.
\<close>

theorem mkdir_builtin:
  assumes "aliases t ''mkdir'' = None" and "home E = Inr h"
  shows "(dropWhile isspace p \<noteq> [] \<longrightarrow>
            execute_command V1_0_1 E (''mkdir '' @ p) t =
              Inr (True, mkdir E (dropWhile isspace p) t))
         \<and> (makedirs E (replace_char (CHR ''~'') h q) (world t) = Inr w' \<longrightarrow>
              mkdir E q t =
                print (''Directory created: '' @ replace_char (CHR ''~'') h q) (t\<lparr>world := w'\<rparr>))
         \<and> (makedirs E (replace_char (CHR ''~'') h q) (world t) = Inl (e, w1) \<longrightarrow>
              mkdir E q t = print (''Error creating directory: '' @ e) (t\<lparr>world := w1\<rparr>))
         \<and> execute_command V1_0_1 E ''mkdir'' t = Inr (True, print ''mkdir: missing path'' t)
         \<and> execute_command V1_0_0 E (''mkdir '' @ p) t = Inr (True, delegate E (''mkdir '' @ p) t)
         \<and> execute_command V1_0_0 E ''mkdir'' t = Inr (True, delegate E ''mkdir'' t)"
proof (intro conjI impI)
  assume "dropWhile isspace p \<noteq> []"
  then show "execute_command V1_0_1 E (''mkdir '' @ p) t =
               Inr (True, mkdir E (dropWhile isspace p) t)"
    by (rule mkdir_line_v101 [OF assms(1)])
next
  assume "makedirs E (replace_char (CHR ''~'') h q) (world t) = Inr w'"
  then show "mkdir E q t =
               print (''Directory created: '' @ replace_char (CHR ''~'') h q) (t\<lparr>world := w'\<rparr>)"
    by (rule mkdir_result(1) [OF assms(2)])
next
  assume "makedirs E (replace_char (CHR ''~'') h q) (world t) = Inl (e, w1)"
  then show "mkdir E q t = print (''Error creating directory: '' @ e) (t\<lparr>world := w1\<rparr>)"
    by (rule mkdir_result(2) [OF assms(2)])
next
  show "execute_command V1_0_1 E ''mkdir'' t = Inr (True, print ''mkdir: missing path'' t)"
    by (rule mkdir_bare_v101 [OF assms(1)])
next
  show "execute_command V1_0_0 E (''mkdir '' @ p) t = Inr (True, delegate E (''mkdir '' @ p) t)"
    by (rule mkdir_line_v100(1) [OF assms(1)])
next
  show "execute_command V1_0_0 E ''mkdir'' t = Inr (True, delegate E ''mkdir'' t)"
    by (rule mkdir_line_v100(2) [OF assms(1)])
qed

section \<open>The session loop\<close>

lemma failed_cd_breaks_loop:
  assumes "getlogin E = Inr u" and "strip l \<noteq> []"
    and "startswith (lower (expand_aliases (aliases t) (strip l))) ''cd ''"
    and "\<not> fst (change_directory E (strip (drop 3 (expand_aliases (aliases t) (strip l))))
                 (t\<lparr>history := history t @ [strip l]\<rparr>))"
  shows "snd (run_iteration rv E (Line l) t) = Terminated"
proof -
  let ?t1 = "t\<lparr>history := history t @ [strip l]\<rparr>"
  let ?c = "expand_aliases (aliases t) (strip l)"
  have "execute_command rv E (strip l) ?t1 = Inr (change_directory E (strip (drop 3 ?c)) ?t1)"
    using assms(2,3)
    by (cases rv) (simp_all add: execute_command_v100_def execute_command_v101_def strip_idem)
  moreover obtain ok t2 where r: "change_directory E (strip (drop 3 ?c)) ?t1 = (ok, t2)"
    by (cases "change_directory E (strip (drop 3 ?c)) ?t1")
  moreover from r assms(4) have "\<not> ok" by simp
  ultimately show ?thesis
    by (simp add: run_iteration_line [OF assms(1,2)])
qed

section \<open>History\<close>

lemma history_line_v100:
  assumes "aliases t ''history'' = None"
  shows "execute_command V1_0_0 E ''history'' t = Inr (True, show_history t)"
proof -
  have x: "expand_aliases (aliases t) ''history'' = ''history''"
    using assms by (simp add: expand_aliases_def split_literals)
  show ?thesis
    by (simp add: execute_command_v100_def x lower_literals strip_literals startswith_def)
qed

lemma history_line_v101:
  assumes "aliases t ''history'' = None"
  shows "execute_command V1_0_1 E ''history'' t = Inr (True, delegate E ''history'' t)"
proof -
  have x: "expand_aliases (aliases t) ''history'' = ''history''"
    using assms by (simp add: expand_aliases_def split_literals)
  have "\<not> builtin V1_0_1 (lower (expand_aliases (aliases t) ''history''))"
    unfolding x lower_literals by (simp add: builtin_v101_def startswith_def)
  moreover have "strip ''history'' \<noteq> []" by (simp add: strip_literals)
  ultimately show ?thesis
    using execute_command_delegates [of "''history''" V1_0_1 t E] unfolding x by blast
qed

lemma printed_fold_print: "printed (fold print xs t) = printed t @ xs"
  by (induction xs arbitrary: t) (simp_all add: print_def)

lemma length_history_lines: "length (history_lines h) = min 10 (length h)"
  by (simp add: history_lines_def del: upt_Suc)

lemma nth_history_lines:
  assumes "i < length (history_lines h)"
  shows "history_lines h ! i =
           ''  '' @ str_of_nat (Suc i) @ '': '' @ h ! (length h - min 10 (length h) + i)"
proof -
  let ?d = "drop (length h - 10) h"
  from assms have i: "i < length ?d" by (simp add: history_lines_def)
  then have "[1 ..< Suc (length ?d)] ! i = Suc i" by (simp del: upt_Suc)
  moreover from i have "?d ! i = h ! (length h - 10 + i)" by simp
  moreover have "length h - 10 = length h - min 10 (length h)" by simp
  ultimately show ?thesis using i by (simp add: history_lines_def del: upt_Suc)
qed

text \<open>
  C4, as amended. When \<open>history\<close> is no alias: in revision 1.0.0 the line \<open>history\<close> prints
  the header and then the last ten entries of the session history (all of them when there
  are fewer), oldest first, the entry at position \<open>i\<close> numbered \<open>i + 1\<close>; revision 1.0.1 has
  no such built-in and hands the line to the external command.
\<close>

theorem history_builtin:
  assumes "aliases t ''history'' = None"
  shows "execute_command V1_0_0 E ''history'' t = Inr (True, show_history t)
         \<and> printed (show_history t) = printed t @ ''Command History:'' # history_lines (history t)
         \<and> length (history_lines (history t)) = min 10 (length (history t))
         \<and> (\<forall>i < length (history_lines (history t)).
               history_lines (history t) ! i =
                 ''  '' @ str_of_nat (Suc i) @ '': '' @
                 history t ! (length (history t) - min 10 (length (history t)) + i))
         \<and> execute_command V1_0_1 E ''history'' t = Inr (True, delegate E ''history'' t)"
  using history_line_v100 [OF assms, of E] history_line_v101 [OF assms, of E]
    length_history_lines [of "history t"] nth_history_lines [of _ "history t"]
  by (simp add: show_history_def printed_fold_print print_def)

section \<open>Listing\<close>

lemma listing_exact_v100:
  assumes "strip line \<noteq> []" and "lower (expand_aliases (aliases t) line) \<in> set [''ls'', ''dir'']"
  shows "execute_command V1_0_0 E line t =
           Inr (True, run_system E (if system t = ''windows'' then ''dir '' else ''ls '') t)"
  using assms
  by (auto simp: execute_command_v100_def list_directory_def startswith_def Let_def)

lemma listing_exact_v101:
  assumes "strip line \<noteq> []" and "lower (expand_aliases (aliases t) line) \<in> set [''ls'', ''dir'']"
  shows "execute_command V1_0_1 E line t =
           Inr (True, run_system E (expand_aliases (aliases t) line) t)"
  using assms
  by (auto simp: execute_command_v101_def startswith_def Let_def)

lemma listing_args_not_builtin:
  assumes "lower v \<in> set [''ls'', ''dir'']"
  shows "\<not> builtin rv (lower (v @ '' '' @ args))"
proof -
  have "lower (v @ '' '' @ args) = lower v @ '' '' @ lower args"
    by (simp add: lower_def lower_space)
  with assms show ?thesis
    by (cases rv) (auto simp: builtin_v100_def builtin_v101_def startswith_def)
qed

text \<open>
  C6, as amended. A line whose expanded form is exactly \<open>ls\<close> or \<open>dir\<close>, in any letter
  case, is listed by the terminal itself: revision 1.0.0 runs \<open>dir\<close> on Windows and \<open>ls\<close>
  elsewhere through \<open>os.system\<close>, with no arguments; revision 1.0.1 passes the expanded
  line to \<open>os.system\<close>. A line whose expanded form is \<open>ls\<close> or \<open>dir\<close>, a space and
  arguments goes unchanged to the external command, in both revisions.
\<close>

theorem listing_dispatch:
  assumes "strip line \<noteq> []"
  shows "(lower (expand_aliases (aliases t) line) \<in> set [''ls'', ''dir''] \<longrightarrow>
            execute_command V1_0_0 E line t =
              Inr (True, run_system E (if system t = ''windows'' then ''dir '' else ''ls '') t)
            \<and> execute_command V1_0_1 E line t =
              Inr (True, run_system E (expand_aliases (aliases t) line) t))
         \<and> (expand_aliases (aliases t) line = v @ '' '' @ args \<and> lower v \<in> set [''ls'', ''dir''] \<longrightarrow>
            execute_command rv E line t = Inr (True, delegate E (v @ '' '' @ args) t))"
proof (intro conjI impI)
  assume a: "lower (expand_aliases (aliases t) line) \<in> set [''ls'', ''dir'']"
  show "execute_command V1_0_0 E line t =
          Inr (True, run_system E (if system t = ''windows'' then ''dir '' else ''ls '') t)"
    by (rule listing_exact_v100 [OF assms a])
  show "execute_command V1_0_1 E line t =
          Inr (True, run_system E (expand_aliases (aliases t) line) t)"
    by (rule listing_exact_v101 [OF assms a])
next
  assume b: "expand_aliases (aliases t) line = v @ '' '' @ args \<and> lower v \<in> set [''ls'', ''dir'']"
  then have "\<not> builtin rv (lower (expand_aliases (aliases t) line))"
    using listing_args_not_builtin [of v rv args] by simp
  from execute_command_delegates [OF assms this, of E] b
  show "execute_command rv E line t = Inr (True, delegate E (v @ '' '' @ args) t)"
    by simp
qed

section \<open>Delegation\<close>

lemma delegate_printed:
  "popen E c (current_dir t) (world t) = Inr (out, err, w') \<Longrightarrow>
     printed (delegate E c t) = printed t @ (if out \<noteq> [] then [strip out] else [])
     \<and> printed_err (delegate E c t) = printed_err t @ (if err \<noteq> [] then [strip err] else [])"
  "popen E c (current_dir t) (world t) = Inl e \<Longrightarrow>
     printed (delegate E c t) = printed t @ [''Error executing command: '' @ e]
     \<and> printed_err (delegate E c t) = printed_err t"
  by (simp_all add: delegate_def print_def print_err_def Let_def)

text \<open>
  C7, as amended. After the process of a delegated line has ended, each captured stream
  that is not empty is printed on its channel with the whitespace at both of its ends
  removed (standard output on the normal channel, standard error on the error channel);
  when the process cannot be started the error is printed on the normal channel; and
  every line that is not a built-in is delegated with the return value \<open>True\<close>, so the
  loop goes on.
\<close>

theorem delegate_relays_streams:
  "(popen E c (current_dir t) (world t) = Inr (out, err, w') \<longrightarrow>
      printed (delegate E c t) = printed t @ (if out \<noteq> [] then [strip out] else [])
      \<and> printed_err (delegate E c t) = printed_err t @ (if err \<noteq> [] then [strip err] else []))
   \<and> (popen E c (current_dir t) (world t) = Inl e \<longrightarrow>
      printed (delegate E c t) = printed t @ [''Error executing command: '' @ e]
      \<and> printed_err (delegate E c t) = printed_err t)
   \<and> (\<exists>a b. s = a @ strip s @ b \<and> (\<forall>x\<in>set a. isspace x) \<and> (\<forall>x\<in>set b. isspace x))
   \<and> (strip s \<noteq> [] \<longrightarrow> \<not> isspace (hd (strip s)) \<and> \<not> isspace (last (strip s)))
   \<and> (strip line \<noteq> [] \<and> \<not> builtin rv (lower (expand_aliases (aliases t) line)) \<longrightarrow>
      execute_command rv E line t = Inr (True, delegate E (expand_aliases (aliases t) line) t))"
  using delegate_printed [of E c t] strip_frame [of s] strip_ends [of s]
    execute_command_delegates [of line rv t E]
  by blast

section \<open>The claims on the POSIX host\<close>

text \<open>
  C1. On the POSIX host, started in \<open>/work\<close>, the line \<open>cd /nonexistent\<close> prints
  \<open>Directory not found: /nonexistent\<close> and the pass through the loop ends in \<open>break\<close>, in
  both revisions: \<open>change_directory\<close> returns \<open>False\<close>, \<open>execute_command\<close> returns that
  value, and \<open>run\<close> reads \<open>False\<close> as the request to stop. A failed \<open>mkdir\<close> and a command
  whose shell cannot be started leave the session running.
\<close>

theorem failed_cd_ends_session:
  "snd (run_iteration V1_0_0 (posix_env quiet) (Line ''cd /nonexistent'')
          (start_session V1_0_0 quiet ''/work'')) = Terminated
   \<and> printed (fst (run_iteration V1_0_0 (posix_env quiet) (Line ''cd /nonexistent'')
          (start_session V1_0_0 quiet ''/work''))) = [''Directory not found: /nonexistent'']
   \<and> snd (run_iteration V1_0_1 (posix_env quiet) (Line ''cd /nonexistent'')
          (start_session V1_0_1 quiet ''/work'')) = Terminated
   \<and> printed (fst (run_iteration V1_0_1 (posix_env quiet) (Line ''cd /nonexistent'')
          (start_session V1_0_1 quiet ''/work''))) = [''Directory not found: /nonexistent'']
   \<and> snd (run_iteration V1_0_1 (posix_env quiet) (Line ''mkdir notes'')
          (start_session V1_0_1 quiet ''/work'')) = Running
   \<and> snd (run_iteration V1_0_1 (posix_env no_shell) (Line ''echofoo 123'')
          (start_session V1_0_1 no_shell ''/work'')) = Running"
  by code_simp

text \<open>
  C2, as amended, on the POSIX host, from \<open>/work\<close>: a missing target and a directory that
  may not be entered leave the session and the file system as they were; \<open>../home/./user\<close>
  succeeds and the session's directory is the new working directory.
\<close>

theorem change_directory_in_step_witness:
  "\<not> fst (change_directory (posix_env quiet) ''/nonexistent'' (start_session V1_0_0 quiet ''/work''))
   \<and> current_dir (snd (change_directory (posix_env quiet) ''/nonexistent''
        (start_session V1_0_0 quiet ''/work''))) = ''/work''
   \<and> world (snd (change_directory (posix_env quiet) ''/nonexistent''
        (start_session V1_0_0 quiet ''/work''))) = work_fs ''/work''
   \<and> \<not> fst (change_directory (posix_env quiet) ''/locked'' (start_session V1_0_0 quiet ''/work''))
   \<and> world (snd (change_directory (posix_env quiet) ''/locked''
        (start_session V1_0_0 quiet ''/work''))) = work_fs ''/work''
   \<and> getcwd (posix_env quiet) (world (start_session V1_0_0 quiet ''/work'')) =
       Inr (current_dir (start_session V1_0_0 quiet ''/work''))
   \<and> fst (change_directory (posix_env quiet) ''../home/./user'' (start_session V1_0_0 quiet ''/work''))
   \<and> getcwd (posix_env quiet) (world (snd (change_directory (posix_env quiet) ''../home/./user''
        (start_session V1_0_0 quiet ''/work'')))) =
       Inr (current_dir (snd (change_directory (posix_env quiet) ''../home/./user''
        (start_session V1_0_0 quiet ''/work''))))
   \<and> cwd (world (snd (change_directory (posix_env quiet) ''../home/./user''
        (start_session V1_0_0 quiet ''/work'')))) = ''/home/user''"
proof -
  let ?E = "posix_env quiet"
  let ?t = "start_session V1_0_0 quiet ''/work''"
  let ?a = "change_directory ?E ''/nonexistent'' ?t"
  let ?b = "change_directory ?E ''/locked'' ?t"
  let ?c = "change_directory ?E ''../home/./user'' ?t"
  have w: "world ?t = work_fs ''/work''" "current_dir ?t = ''/work''"
    by (simp_all add: start_session_def new_terminal_def)
  have g: "getcwd ?E (world ?t) = Inr (current_dir ?t)"
    using init_in_step [OF init_start_session] .
  have H: "\<forall>p w'. chdir ?E p (world ?t) = Inr w' \<longrightarrow> (\<exists>d. getcwd ?E w' = Inr d)"
  proof (intro allI impI)
    fix p w'
    assume c: "chdir ?E p (world ?t) = Inr w'"
    have "hidden (world ?t) = []" by (simp add: w work_fs_def)
    from host_getcwd_after_chdir [OF this c] show "\<exists>d. getcwd ?E w' = Inr d" by blast
  qed
  have fa: "\<not> fst ?a" by code_simp
  have fb: "\<not> fst ?b" by code_simp
  have fc: "fst ?c" by code_simp
  have dc: "cwd (world (snd ?c)) = ''/home/user''" by code_simp
  have ha: "?a = (fst ?a, snd ?a)" and hb: "?b = (fst ?b, snd ?b)"
    and hc: "?c = (fst ?c, snd ?c)"
    by simp_all
  from change_directory_in_step [OF ha] fa H w
  have 1: "current_dir (snd ?a) = ''/work'' \<and> world (snd ?a) = work_fs ''/work''" by simp
  from change_directory_in_step [OF hb] fb H w
  have 2: "world (snd ?b) = work_fs ''/work''" by simp
  from change_directory_in_step [OF hc] g H
  have 3: "getcwd ?E (world (snd ?c)) = Inr (current_dir (snd ?c))" by blast
  from fa fb fc 1 2 3 g dc show ?thesis by simp
qed

text \<open>
  C2, as stated, fails twice. On a host whose shell renames \<open>/work\<close> to \<open>/moved\<close> while the
  session is in \<open>/work\<close>, the process is then in \<open>/moved\<close> and the session still holds
  \<open>/work\<close>; the failed \<open>cd /nonexistent\<close> that follows leaves both as they are, different.
  And from \<open>/work\<close>, entering \<open>/vault\<close>, whose path cannot be read back: \<open>chdir\<close> succeeds,
  \<open>getcwd\<close> raises, the attempt returns \<open>False\<close>, the process is in \<open>/vault\<close> and the
  session still holds \<open>/work\<close>.
\<close>

theorem change_directory_counterexample:
  "getcwd mv_host (world (start_session V1_0_0 quiet ''/work'')) =
     Inr (current_dir (start_session V1_0_0 quiet ''/work''))
   \<and> \<not> fst (change_directory mv_host ''/nonexistent''
        (fst (run_iteration V1_0_0 mv_host (Line ''mv /work /moved'')
          (start_session V1_0_0 quiet ''/work''))))
   \<and> current_dir (snd (change_directory mv_host ''/nonexistent''
        (fst (run_iteration V1_0_0 mv_host (Line ''mv /work /moved'')
          (start_session V1_0_0 quiet ''/work''))))) = ''/work''
   \<and> getcwd mv_host (world (snd (change_directory mv_host ''/nonexistent''
        (fst (run_iteration V1_0_0 mv_host (Line ''mv /work /moved'')
          (start_session V1_0_0 quiet ''/work'')))))) = Inr ''/moved''
   \<and> getcwd (posix_env quiet) (world ((start_session V1_0_0 quiet ''/work'')\<lparr>world := vault_fs\<rparr>)) =
       Inr (current_dir ((start_session V1_0_0 quiet ''/work'')\<lparr>world := vault_fs\<rparr>))
   \<and> \<not> fst (change_directory (posix_env quiet) ''/vault''
        ((start_session V1_0_0 quiet ''/work'')\<lparr>world := vault_fs\<rparr>))
   \<and> current_dir (snd (change_directory (posix_env quiet) ''/vault''
        ((start_session V1_0_0 quiet ''/work'')\<lparr>world := vault_fs\<rparr>))) = ''/work''
   \<and> cwd (world (snd (change_directory (posix_env quiet) ''/vault''
        ((start_session V1_0_0 quiet ''/work'')\<lparr>world := vault_fs\<rparr>)))) = ''/vault''
   \<and> printed (snd (change_directory (posix_env quiet) ''/vault''
        ((start_session V1_0_0 quiet ''/work'')\<lparr>world := vault_fs\<rparr>))) =
       [''Error changing directory: [Errno 13] Permission denied'']"
  by code_simp

text \<open>C8 on the POSIX host, started in \<open>/\<close>: the third \<open>cd -\<close> in a row.\<close>

theorem cd_previous_at_root_stays_witness:
  "dirname (posix_env quiet) (current_dir (start_session V1_0_1 quiet ''/'')) =
     current_dir (start_session V1_0_1 quiet ''/'')
   \<and> aliases (start_session V1_0_1 quiet ''/'') ''cd'' = None
   \<and> execute_command V1_0_1 (posix_env quiet) ''cd -''
        ((cd_previous (posix_env quiet) ^^ 2) (start_session V1_0_1 quiet ''/'')) =
       Inr (True, print ''Already at root directory''
        ((cd_previous (posix_env quiet) ^^ 2) (start_session V1_0_1 quiet ''/'')))
   \<and> current_dir ((cd_previous (posix_env quiet) ^^ 2) (start_session V1_0_1 quiet ''/'')) = ''/''
   \<and> cwd (world ((cd_previous (posix_env quiet) ^^ 2) (start_session V1_0_1 quiet ''/''))) = ''/''"
proof -
  let ?E = "posix_env quiet"
  let ?t = "start_session V1_0_1 quiet ''/''"
  have h1: "dirname ?E (current_dir ?t) = current_dir ?t" by code_simp
  have h2: "aliases ?t ''cd'' = None" by code_simp
  have c: "current_dir ?t = ''/''" "cwd (world ?t) = ''/''" by code_simp+
  from cd_previous_at_root_stays [OF h1 h2, of V1_0_1 2] h1 h2 c
  show ?thesis by simp
qed

text \<open>
  C10 on the POSIX host: the line \<open>mkdirs x\<close> creates the directory \<open>/work/x\<close> and starts
  no process.
\<close>

theorem mkdir_prefix_selects_builtin_witness:
  "strip ''mkdirs x'' \<noteq> []
   \<and> startswith (lower (expand_aliases (aliases (start_session V1_0_1 quiet ''/work'')) ''mkdirs x''))
        ''mkdir''
   \<and> execute_command V1_0_1 (posix_env quiet) ''mkdirs x'' (start_session V1_0_1 quiet ''/work'') =
       Inr (True, mkdir (posix_env quiet) ''x'' (start_session V1_0_1 quiet ''/work''))
   \<and> printed (mkdir (posix_env quiet) ''x'' (start_session V1_0_1 quiet ''/work'')) =
       [''Directory created: x'']
   \<and> ''/work/x'' \<in> set (directories (world
        (mkdir (posix_env quiet) ''x'' (start_session V1_0_1 quiet ''/work''))))
   \<and> spawned (mkdir (posix_env quiet) ''x'' (start_session V1_0_1 quiet ''/work'')) = []"
proof -
  let ?E = "posix_env quiet"
  let ?t = "start_session V1_0_1 quiet ''/work''"
  have h1: "strip ''mkdirs x'' \<noteq> []" by code_simp
  have h2: "startswith (lower (expand_aliases (aliases ?t) ''mkdirs x'')) ''mkdir''" by code_simp
  have s: "split_maxsplit1 (expand_aliases (aliases ?t) ''mkdirs x'') = [''mkdirs'', ''x'']"
    by code_simp
  have p: "printed (mkdir ?E ''x'' ?t) = [''Directory created: x'']" by code_simp
  have d: "''/work/x'' \<in> set (directories (world (mkdir ?E ''x'' ?t)))" by code_simp
  have sp: "spawned (mkdir ?E ''x'' ?t) = []" by code_simp
  from mkdir_prefix_selects_builtin [OF h1 h2, of ?E] s
  have "execute_command V1_0_1 ?E ''mkdirs x'' ?t = Inr (True, mkdir ?E ''x'' ?t)" by simp
  with h1 h2 p d sp show ?thesis by simp
qed

text \<open>C4, as amended, in revision 1.0.0 with twelve entries: the last ten are printed.\<close>

theorem history_builtin_witness:
  "aliases ((start_session V1_0_0 quiet ''/work'')
      \<lparr>history := [''c1'', ''c2'', ''c3'', ''c4'', ''c5'', ''c6'', ''c7'', ''c8'', ''c9'', ''c10'',
                   ''c11'', ''history'']\<rparr>) ''history'' = None
   \<and> execute_command V1_0_0 (posix_env quiet) ''history''
        ((start_session V1_0_0 quiet ''/work'')
          \<lparr>history := [''c1'', ''c2'', ''c3'', ''c4'', ''c5'', ''c6'', ''c7'', ''c8'', ''c9'', ''c10'',
                       ''c11'', ''history'']\<rparr>) =
       Inr (True, show_history ((start_session V1_0_0 quiet ''/work'')
          \<lparr>history := [''c1'', ''c2'', ''c3'', ''c4'', ''c5'', ''c6'', ''c7'', ''c8'', ''c9'', ''c10'',
                       ''c11'', ''history'']\<rparr>))
   \<and> printed (show_history ((start_session V1_0_0 quiet ''/work'')
          \<lparr>history := [''c1'', ''c2'', ''c3'', ''c4'', ''c5'', ''c6'', ''c7'', ''c8'', ''c9'', ''c10'',
                       ''c11'', ''history'']\<rparr>)) =
       [''Command History:'', ''  1: c3'', ''  2: c4'', ''  3: c5'', ''  4: c6'', ''  5: c7'',
        ''  6: c8'', ''  7: c9'', ''  8: c10'', ''  9: c11'', ''  10: history'']"
proof -
  let ?E = "posix_env quiet"
  let ?t = "(start_session V1_0_0 quiet ''/work'')
      \<lparr>history := [''c1'', ''c2'', ''c3'', ''c4'', ''c5'', ''c6'', ''c7'', ''c8'', ''c9'', ''c10'',
                   ''c11'', ''history'']\<rparr>"
  have h: "aliases ?t ''history'' = None" by code_simp
  have p: "printed (show_history ?t) =
       [''Command History:'', ''  1: c3'', ''  2: c4'', ''  3: c5'', ''  4: c6'', ''  5: c7'',
        ''  6: c8'', ''  7: c9'', ''  8: c10'', ''  9: c11'', ''  10: history'']"
    by code_simp
  from history_builtin [OF h, of ?E] h p show ?thesis by simp
qed

text \<open>
  C4, as stated, fails in revision 1.0.1: with \<open>pwd\<close> entered before, the line \<open>history\<close>
  prints no entry of the session history; it is run as an external command, whose error
  text is relayed.
\<close>

theorem history_v101_counterexample:
  "history (fst (run_iteration V1_0_1 (posix_env demo_shell) (Line ''history'')
      ((start_session V1_0_1 demo_shell ''/work'')\<lparr>history := [''pwd'']\<rparr>))) = [''pwd'', ''history'']
   \<and> printed (fst (run_iteration V1_0_1 (posix_env demo_shell) (Line ''history'')
      ((start_session V1_0_1 demo_shell ''/work'')\<lparr>history := [''pwd'']\<rparr>))) = []
   \<and> printed_err (fst (run_iteration V1_0_1 (posix_env demo_shell) (Line ''history'')
      ((start_session V1_0_1 demo_shell ''/work'')\<lparr>history := [''pwd'']\<rparr>))) =
       [''sh: 1: history: not found'']
   \<and> spawned (fst (run_iteration V1_0_1 (posix_env demo_shell) (Line ''history'')
      ((start_session V1_0_1 demo_shell ''/work'')\<lparr>history := [''pwd'']\<rparr>))) =
       [Popen ''history'' ''/work'']"
  by code_simp

text \<open>
  C5, as amended, on the POSIX host in revision 1.0.1: \<open>mkdir a/b\<close> creates \<open>/work/a\<close> and
  \<open>/work/a/b\<close> and reports \<open>a/b\<close>; a bare \<open>mkdir\<close> reports the missing path; and for
  \<open>a/\<close> followed by a name of 256 characters the error is reported and \<open>/work/a\<close>, made
  before the failure, stays.
\<close>

theorem mkdir_builtin_witness:
  "aliases (start_session V1_0_1 quiet ''/work'') ''mkdir'' = None
   \<and> home (posix_env quiet) = Inr ''/home/user''
   \<and> execute_command V1_0_1 (posix_env quiet) ''mkdir a/b'' (start_session V1_0_1 quiet ''/work'') =
       Inr (True, mkdir (posix_env quiet) ''a/b'' (start_session V1_0_1 quiet ''/work''))
   \<and> printed (mkdir (posix_env quiet) ''a/b'' (start_session V1_0_1 quiet ''/work'')) =
       [''Directory created: a/b'']
   \<and> directories (world (mkdir (posix_env quiet) ''a/b'' (start_session V1_0_1 quiet ''/work''))) =
       [''/'', ''/home'', ''/home/user'', ''/work'', ''/locked'', ''/work/a'', ''/work/a/b'']
   \<and> execute_command V1_0_1 (posix_env quiet) ''mkdir'' (start_session V1_0_1 quiet ''/work'') =
       Inr (True, print ''mkdir: missing path'' (start_session V1_0_1 quiet ''/work''))
   \<and> printed (mkdir (posix_env quiet) (''a/'' @ replicate 256 (CHR ''x''))
        (start_session V1_0_1 quiet ''/work'')) =
       [''Error creating directory: '' @
        os_message ENAMETOOLONG (''a/'' @ replicate 256 (CHR ''x''))]
   \<and> directories (world (mkdir (posix_env quiet) (''a/'' @ replicate 256 (CHR ''x''))
        (start_session V1_0_1 quiet ''/work''))) =
       [''/'', ''/home'', ''/home/user'', ''/work'', ''/locked'', ''/work/a'']"
proof -
  let ?E = "posix_env quiet"
  let ?t = "start_session V1_0_1 quiet ''/work''"
  let ?long = "''a/'' @ replicate 256 (CHR ''x'')"
  let ?w1 = "(work_fs ''/work'')\<lparr>directories := directories (work_fs ''/work'') @ [''/work/a'']\<rparr>"
  have h1: "aliases ?t ''mkdir'' = None" by code_simp
  have h2: "home ?E = Inr ''/home/user''" by code_simp
  have d: "dropWhile isspace ''a/b'' = ''a/b''" by code_simp
  have p: "printed (mkdir ?E ''a/b'' ?t) = [''Directory created: a/b'']" by code_simp
  have w: "directories (world (mkdir ?E ''a/b'' ?t)) =
       [''/'', ''/home'', ''/home/user'', ''/work'', ''/locked'', ''/work/a'', ''/work/a/b'']"
    by code_simp
  have m: "makedirs ?E (replace_char (CHR ''~'') ''/home/user'' ?long) (world ?t) =
             Inl (os_message ENAMETOOLONG ?long, ?w1)"
    by code_simp
  have pt: "printed ?t = []" by code_simp
  have dw: "directories ?w1 = [''/'', ''/home'', ''/home/user'', ''/work'', ''/locked'', ''/work/a'']"
    by code_simp
  from mkdir_builtin [OF h1 h2, where p = "''a/b''"] d
  have 1: "execute_command V1_0_1 ?E ''mkdir a/b'' ?t = Inr (True, mkdir ?E ''a/b'' ?t)
        \<and> execute_command V1_0_1 ?E ''mkdir'' ?t = Inr (True, print ''mkdir: missing path'' ?t)"
    by simp
  from mkdir_builtin [OF h1 h2, where q = ?long and e = "os_message ENAMETOOLONG ?long"
      and ?w1.0 = ?w1] m
  have "mkdir ?E ?long ?t =
          print (''Error creating directory: '' @ os_message ENAMETOOLONG ?long) (?t\<lparr>world := ?w1\<rparr>)"
    by blast
  with pt dw have 2: "printed (mkdir ?E ?long ?t) =
       [''Error creating directory: '' @ os_message ENAMETOOLONG ?long]
     \<and> directories (world (mkdir ?E ?long ?t)) =
       [''/'', ''/home'', ''/home/user'', ''/work'', ''/locked'', ''/work/a'']"
    by (simp add: print_def)
  from 1 2 h1 h2 p w show ?thesis by simp
qed

text \<open>
  C5, as stated, fails twice. In revision 1.0.0 the line \<open>mkdir a/b\<close> is an external
  command: the terminal prints no created path, and with a shell whose \<open>mkdir\<close> does not
  create ancestors no directory appears. In revision 1.0.1 the line \<open>mkdir notes\<close>, where
  \<open>/work/notes\<close> is a regular file, reports an error and creates nothing.
\<close>

theorem mkdir_counterexample:
  "spawned (fst (run_iteration V1_0_0 (posix_env demo_shell) (Line ''mkdir a/b'')
      (start_session V1_0_0 demo_shell ''/work''))) = [Popen ''mkdir a/b'' ''/work'']
   \<and> printed (fst (run_iteration V1_0_0 (posix_env demo_shell) (Line ''mkdir a/b'')
      (start_session V1_0_0 demo_shell ''/work''))) = []
   \<and> world (fst (run_iteration V1_0_0 (posix_env demo_shell) (Line ''mkdir a/b'')
      (start_session V1_0_0 demo_shell ''/work''))) = work_fs ''/work''
   \<and> ''/work/a/b'' \<notin> set (directories (work_fs ''/work''))
   \<and> printed (fst (run_iteration V1_0_1 (posix_env demo_shell) (Line ''mkdir notes'')
      (start_session V1_0_1 demo_shell ''/work''))) =
       [''Error creating directory: [Errno 17] File exists: '' @ quoted ''notes'']
   \<and> world (fst (run_iteration V1_0_1 (posix_env demo_shell) (Line ''mkdir notes'')
      (start_session V1_0_1 demo_shell ''/work''))) = work_fs ''/work''
   \<and> ''/work/notes'' \<notin> set (directories (work_fs ''/work''))"
  by code_simp

text \<open>C6, as amended, on the POSIX host: the lines \<open>dir\<close> and \<open>ls -la\<close>.\<close>

theorem listing_dispatch_witness:
  "strip ''dir'' \<noteq> []
   \<and> lower (expand_aliases (aliases (start_session V1_0_0 quiet ''/work'')) ''dir'') \<in> set [''ls'', ''dir'']
   \<and> execute_command V1_0_0 (posix_env quiet) ''dir'' (start_session V1_0_0 quiet ''/work'') =
       Inr (True, run_system (posix_env quiet) ''ls '' (start_session V1_0_0 quiet ''/work''))
   \<and> execute_command V1_0_1 (posix_env quiet) ''dir'' (start_session V1_0_1 quiet ''/work'') =
       Inr (True, run_system (posix_env quiet) ''dir'' (start_session V1_0_1 quiet ''/work''))
   \<and> strip ''ls -la'' \<noteq> []
   \<and> expand_aliases (aliases (start_session V1_0_0 quiet ''/work'')) ''ls -la'' = ''ls'' @ '' '' @ ''-la''
   \<and> execute_command V1_0_0 (posix_env quiet) ''ls -la'' (start_session V1_0_0 quiet ''/work'') =
       Inr (True, delegate (posix_env quiet) ''ls -la'' (start_session V1_0_0 quiet ''/work''))"
proof -
  let ?E = "posix_env quiet"
  let ?t = "start_session V1_0_0 quiet ''/work''"
  let ?t1 = "start_session V1_0_1 quiet ''/work''"
  have a1: "strip ''dir'' \<noteq> []" by code_simp
  have a2: "lower (expand_aliases (aliases ?t) ''dir'') \<in> set [''ls'', ''dir'']" by code_simp
  have a3: "expand_aliases (aliases ?t) ''dir'' = ''dir''" by code_simp
  have a4: "system ?t = ''linux''" by code_simp
  have c2: "lower (expand_aliases (aliases ?t1) ''dir'') \<in> set [''ls'', ''dir'']" by code_simp
  have c3: "expand_aliases (aliases ?t1) ''dir'' = ''dir''" by code_simp
  have b1: "strip ''ls -la'' \<noteq> []" by code_simp
  have b2: "expand_aliases (aliases ?t) ''ls -la'' = ''ls'' @ '' '' @ ''-la''" by code_simp
  have b3: "lower ''ls'' \<in> set [''ls'', ''dir'']" by code_simp
  from listing_dispatch [OF a1, of ?t ?E "''ls''" "''-la''" V1_0_0] a2
  have "execute_command V1_0_0 ?E ''dir'' ?t =
          Inr (True, run_system ?E (if system ?t = ''windows'' then ''dir '' else ''ls '') ?t)"
    by blast
  with a4 have 1: "execute_command V1_0_0 ?E ''dir'' ?t = Inr (True, run_system ?E ''ls '' ?t)"
    by simp
  from listing_dispatch [OF a1, of ?t1 ?E "''ls''" "''-la''" V1_0_0] c2
  have "execute_command V1_0_1 ?E ''dir'' ?t1 =
          Inr (True, run_system ?E (expand_aliases (aliases ?t1) ''dir'') ?t1)"
    by blast
  with c3 have 3: "execute_command V1_0_1 ?E ''dir'' ?t1 = Inr (True, run_system ?E ''dir'' ?t1)"
    by simp
  from listing_dispatch [OF b1, of ?t ?E "''ls''" "''-la''" V1_0_0] b2 b3
  have "execute_command V1_0_0 ?E ''ls -la'' ?t = Inr (True, delegate ?E (''ls'' @ '' '' @ ''-la'') ?t)"
    by blast
  then have 2: "execute_command V1_0_0 ?E ''ls -la'' ?t = Inr (True, delegate ?E ''ls -la'' ?t)"
    by simp
  from 1 2 3 a1 a2 b1 b2 show ?thesis by blast
qed

text \<open>
  C6, as stated, fails on a Linux host at the line \<open>dir -l\<close>: the listing command of that
  platform is \<open>ls\<close> (what \<open>list_directory\<close> runs for a bare \<open>dir\<close>), but the process
  started is \<open>dir -l\<close>, handed unchanged to the external command.
\<close>

theorem listing_counterexample:
  "system (start_session V1_0_0 quiet ''/work'') = ''linux''
   \<and> spawned (list_directory (posix_env quiet) ''dir'' (start_session V1_0_0 quiet ''/work'')) =
       [System ''ls '']
   \<and> spawned (fst (run_iteration V1_0_0 (posix_env quiet) (Line ''dir -l'')
        (start_session V1_0_0 quiet ''/work''))) = [Popen ''dir -l'' ''/work'']
   \<and> spawned (fst (run_iteration V1_0_1 (posix_env quiet) (Line ''dir -l'')
        (start_session V1_0_1 quiet ''/work''))) = [Popen ''dir -l'' ''/work'']
   \<and> map command_of (spawned (fst (run_iteration V1_0_0 (posix_env quiet) (Line ''dir -l'')
        (start_session V1_0_0 quiet ''/work'')))) \<noteq> [''ls -l'']"
  by code_simp

text \<open>
  C7, as amended, on the POSIX host: \<open>cat notes\<close> with a shell that prints an indented
  line, and with a shell that cannot be started.
\<close>

theorem delegate_relays_streams_witness:
  "popen (posix_env demo_shell) ''cat notes'' (current_dir (start_session V1_0_0 demo_shell ''/work''))
     (world (start_session V1_0_0 demo_shell ''/work'')) =
     Inr (''  indented'' @ [CHR 0x0A], [], work_fs ''/work'')
   \<and> printed (delegate (posix_env demo_shell) ''cat notes'' (start_session V1_0_0 demo_shell ''/work''))
       = [''indented'']
   \<and> printed_err (delegate (posix_env demo_shell) ''cat notes''
        (start_session V1_0_0 demo_shell ''/work'')) = []
   \<and> popen (posix_env no_shell) ''cat notes'' (current_dir (start_session V1_0_0 no_shell ''/work''))
     (world (start_session V1_0_0 no_shell ''/work'')) =
     Inl (''[Errno 2] No such file or directory: '' @ quoted ''/bin/sh'')
   \<and> printed (delegate (posix_env no_shell) ''cat notes'' (start_session V1_0_0 no_shell ''/work''))
       = [''Error executing command: [Errno 2] No such file or directory: '' @ quoted ''/bin/sh'']
   \<and> strip ''cat notes'' \<noteq> []
   \<and> \<not> builtin V1_0_0 (lower (expand_aliases (aliases (start_session V1_0_0 demo_shell ''/work''))
          ''cat notes''))
   \<and> execute_command V1_0_0 (posix_env demo_shell) ''cat notes''
        (start_session V1_0_0 demo_shell ''/work'') =
       Inr (True, delegate (posix_env demo_shell) ''cat notes''
         (start_session V1_0_0 demo_shell ''/work''))"
proof -
  let ?E = "posix_env demo_shell"
  let ?t = "start_session V1_0_0 demo_shell ''/work''"
  let ?E' = "posix_env no_shell"
  let ?t' = "start_session V1_0_0 no_shell ''/work''"
  let ?out = "''  indented'' @ [CHR 0x0A]"
  let ?e = "''[Errno 2] No such file or directory: '' @ quoted ''/bin/sh''"
  have p: "popen ?E ''cat notes'' (current_dir ?t) (world ?t) = Inr (?out, [], work_fs ''/work'')"
    by code_simp
  have p': "popen ?E' ''cat notes'' (current_dir ?t') (world ?t') = Inl ?e"
    by code_simp
  have s: "strip ?out = ''indented''" "printed ?t = []" "printed_err ?t = []" "printed ?t' = []"
    by code_simp+
  have l: "strip ''cat notes'' \<noteq> []" by code_simp
  have x: "expand_aliases (aliases ?t) ''cat notes'' = ''cat notes''" by code_simp
  have nb: "\<not> builtin V1_0_0 (lower (expand_aliases (aliases ?t) ''cat notes''))" by code_simp
  from delegate_relays_streams
         [of ?E "''cat notes''" ?t ?out "[]" "work_fs ''/work''" ?e ?out "''cat notes''" V1_0_0]
       p s l x nb
  have 1: "printed (delegate ?E ''cat notes'' ?t) = [''indented'']
           \<and> printed_err (delegate ?E ''cat notes'' ?t) = []
           \<and> execute_command V1_0_0 ?E ''cat notes'' ?t = Inr (True, delegate ?E ''cat notes'' ?t)"
    by simp
  from delegate_relays_streams
         [of ?E' "''cat notes''" ?t' ?out "[]" "work_fs ''/work''" ?e ?out "''cat notes''" V1_0_0]
       p' s
  have 2: "printed (delegate ?E' ''cat notes'' ?t') = [''Error executing command: '' @ ?e]"
    by simp
  from 1 2 p p' l nb show ?thesis by simp
qed

text \<open>
  C7, as stated, fails where the output starts with whitespace: the captured text is
  two spaces, \<open>indented\<close> and a newline; trimming its trailing whitespace would leave the two
  spaces, but the terminal prints \<open>indented\<close>.
\<close>

theorem delegate_counterexample:
  "popen (posix_env demo_shell) ''cat notes'' (current_dir (start_session V1_0_0 demo_shell ''/work''))
     (world (start_session V1_0_0 demo_shell ''/work'')) =
     Inr (''  indented'' @ [CHR 0x0A], [], work_fs ''/work'')
   \<and> rstrip (''  indented'' @ [CHR 0x0A]) = ''  indented''
   \<and> printed (fst (run_iteration V1_0_0 (posix_env demo_shell) (Line ''cat notes'')
        (start_session V1_0_0 demo_shell ''/work''))) = [''indented'']
   \<and> printed (fst (run_iteration V1_0_0 (posix_env demo_shell) (Line ''cat notes'')
        (start_session V1_0_0 demo_shell ''/work''))) \<noteq> [rstrip (''  indented'' @ [CHR 0x0A])]"
  by code_simp

end
